theory Spec2Isabelle
  imports Complex_Main
begin

section \<open>JavaScript values\<close>

text \<open>
  The operations of \<^verbatim>\<open>src/github/operations/projects.ts\<close> exchange JSON with the
  remote platform and read it without static guarantees, so run-time values are
  modelled untyped.  Objects are association lists in insertion order; a number is a
  rational (every finite double is one, and \<^verbatim>\<open>===\<close> on finite numbers is equality);
  \<open>Undefined\<close> is what reading an absent property gives.
\<close>

datatype jsval =
    Undefined
  | Null
  | Bool bool
  | Num rat
  | Str string
  | Arr "jsval list"
  | Obj "(string \<times> jsval) list"

datatype error =
    Error string
  | TypeError
  | ZodError
  | GitHubError nat jsval

text \<open>
  \<open>Error m\<close> is \<^verbatim>\<open>new Error(m)\<close>; \<open>TypeError\<close> is what reading a property of
  \<^verbatim>\<open>null\<close> or \<^verbatim>\<open>undefined\<close> throws; \<open>ZodError\<close> is what \<^verbatim>\<open>Schema.parse\<close> throws;
  \<open>GitHubError status body\<close> stands for whatever the transport helper
  \<^verbatim>\<open>githubRequest\<close> of \<^verbatim>\<open>common/utils.ts\<close> throws.
\<close>

fun truthy :: "jsval \<Rightarrow> bool" where
  "truthy Undefined = False"
| "truthy Null = False"
| "truthy (Bool b) = b"
| "truthy (Num n) = (n \<noteq> 0)"
| "truthy (Str s) = (s \<noteq> [])"
| "truthy (Arr xs) = True"
| "truthy (Obj kvs) = True"

text \<open>
  \<open>getProp v k\<close> is \<^verbatim>\<open>v.k\<close>.  The keys read by this program are not properties of
  the string, number, boolean or array prototypes, so reading one from such a value
  gives \<^verbatim>\<open>undefined\<close>.
\<close>

fun getProp :: "jsval \<Rightarrow> string \<Rightarrow> error + jsval" where
  "getProp Undefined k = Inl TypeError"
| "getProp Null k = Inl TypeError"
| "getProp (Obj kvs) k = Inr (case map_of kvs k of None \<Rightarrow> Undefined | Some v \<Rightarrow> v)"
| "getProp v k = Inr Undefined"

fun getPath :: "jsval \<Rightarrow> string list \<Rightarrow> error + jsval" where
  "getPath v [] = Inr v"
| "getPath v (k # ks) = (case getProp v k of Inl e \<Rightarrow> Inl e | Inr x \<Rightarrow> getPath x ks)"

text \<open>
  \<open>field v k\<close> reads a property of a value already known not to be \<^verbatim>\<open>null\<close> or
  \<^verbatim>\<open>undefined\<close> (after a truthiness test or a successful schema parse).
\<close>

definition field :: "jsval \<Rightarrow> string \<Rightarrow> jsval" where
  "field v k = (case v of Obj kvs \<Rightarrow> (case map_of kvs k of None \<Rightarrow> Undefined | Some x \<Rightarrow> x)
                | _ \<Rightarrow> Undefined)"

fun joinWith :: "string \<Rightarrow> string list \<Rightarrow> string" where
  "joinWith sep [] = []"
| "joinWith sep [x] = x"
| "joinWith sep (x # y # ys) = x @ sep @ joinWith sep (y # ys)"

text \<open>
  \<open>ToString num v\<close> is the string a template literal \<^verbatim>\<open>`${v}`\<close> interpolates;
  \<open>num\<close> is the run-time's number-to-string conversion.
\<close>

fun ToString :: "(rat \<Rightarrow> string) \<Rightarrow> jsval \<Rightarrow> string" where
  "ToString num Undefined = ''undefined''"
| "ToString num Null = ''null''"
| "ToString num (Bool b) = (if b then ''true'' else ''false'')"
| "ToString num (Num n) = num n"
| "ToString num (Str s) = s"
| "ToString num (Arr xs) =
     joinWith '','' (map (\<lambda>x. if x = Undefined \<or> x = Null then [] else ToString num x) xs)"
| "ToString num (Obj kvs) = ''[object Object]''"

definition optStr :: "string option \<Rightarrow> jsval" where
  "optStr s = (case s of None \<Rightarrow> Undefined | Some x \<Rightarrow> Str x)"

definition optBool :: "bool option \<Rightarrow> jsval" where
  "optBool b = (case b of None \<Rightarrow> Undefined | Some x \<Rightarrow> Bool x)"

definition optNum :: "rat option \<Rightarrow> jsval" where
  "optNum n = (case n of None \<Rightarrow> Undefined | Some x \<Rightarrow> Num x)"


section \<open>Schemas of the zod library\<close>

text \<open>
  The schemas the program builds with \<^verbatim>\<open>z.object\<close>, \<^verbatim>\<open>z.array\<close>, \<^verbatim>\<open>z.union\<close> and so on
  are values of \<open>schema\<close>; \<open>parse\<close> is \<^verbatim>\<open>safeParse\<close>: \<open>None\<close> when the value is refused,
  otherwise the parsed value.  An object schema keeps the keys of its shape only (zod's
  default of stripping unknown keys), a key whose parsed value is \<^verbatim>\<open>undefined\<close> is kept
  only when the input had it, and a union takes its first option that accepts.
  \<open>ZDatetime\<close> is \<^verbatim>\<open>z.string().datetime()\<close>; the test for a date-time string belongs to
  the library and is a parameter.
\<close>

datatype schema =
    ZString
  | ZDatetime
  | ZNumber
  | ZBoolean
  | ZNull
  | ZUnknown
  | ZLiteral string
  | ZEnum "string list"
  | ZObject "(string \<times> schema) list"
  | ZArray schema
  | ZRecord schema
  | ZUnion "schema list"
  | ZOptional schema
  | ZNullable schema

fun parse_shape ::
  "(string \<times> (jsval \<Rightarrow> jsval option)) list \<Rightarrow> (string \<times> jsval) list
     \<Rightarrow> (string \<times> jsval) list option" where
  "parse_shape [] kvs = Some []"
| "parse_shape ((k, p) # ps) kvs =
     (case p (case map_of kvs k of None \<Rightarrow> Undefined | Some v \<Rightarrow> v) of
        None \<Rightarrow> None
      | Some v \<Rightarrow>
          (case parse_shape ps kvs of
             None \<Rightarrow> None
           | Some out \<Rightarrow>
               Some (if v \<noteq> Undefined \<or> k \<in> fst ` set kvs then (k, v) # out else out)))"

fun parse_all :: "('a \<Rightarrow> 'b option) \<Rightarrow> 'a list \<Rightarrow> 'b list option" where
  "parse_all p [] = Some []"
| "parse_all p (x # xs) =
     (case p x of
        None \<Rightarrow> None
      | Some y \<Rightarrow> (case parse_all p xs of None \<Rightarrow> None | Some ys \<Rightarrow> Some (y # ys)))"

fun first_success :: "(jsval \<Rightarrow> jsval option) list \<Rightarrow> jsval \<Rightarrow> jsval option" where
  "first_success [] j = None"
| "first_success (p # ps) j = (case p j of Some v \<Rightarrow> Some v | None \<Rightarrow> first_success ps j)"

primrec parse :: "(string \<Rightarrow> bool) \<Rightarrow> schema \<Rightarrow> jsval \<Rightarrow> jsval option" where
  "parse dt ZString = (\<lambda>j. case j of Str s \<Rightarrow> Some j | _ \<Rightarrow> None)"
| "parse dt ZDatetime = (\<lambda>j. case j of Str s \<Rightarrow> (if dt s then Some j else None) | _ \<Rightarrow> None)"
| "parse dt ZNumber = (\<lambda>j. case j of Num n \<Rightarrow> Some j | _ \<Rightarrow> None)"
| "parse dt ZBoolean = (\<lambda>j. case j of Bool b \<Rightarrow> Some j | _ \<Rightarrow> None)"
| "parse dt ZNull = (\<lambda>j. case j of Null \<Rightarrow> Some j | _ \<Rightarrow> None)"
| "parse dt ZUnknown = (\<lambda>j. Some j)"
| "parse dt (ZLiteral l) = (\<lambda>j. if j = Str l then Some j else None)"
| "parse dt (ZEnum ls) =
     (\<lambda>j. case j of Str s \<Rightarrow> (if s \<in> set ls then Some j else None) | _ \<Rightarrow> None)"
| "parse dt (ZObject shape) =
     (\<lambda>j. case j of
        Obj kvs \<Rightarrow> map_option Obj (parse_shape (map (map_prod id (parse dt)) shape) kvs)
      | _ \<Rightarrow> None)"
| "parse dt (ZArray s) =
     (\<lambda>j. case j of Arr xs \<Rightarrow> map_option Arr (parse_all (parse dt s) xs) | _ \<Rightarrow> None)"
| "parse dt (ZRecord s) =
     (\<lambda>j. case j of
        Obj kvs \<Rightarrow>
          map_option Obj (parse_all (\<lambda>(k, v). map_option (Pair k) (parse dt s v)) kvs)
      | _ \<Rightarrow> None)"
| "parse dt (ZUnion ss) = first_success (map (parse dt) ss)"
| "parse dt (ZOptional s) = (\<lambda>j. if j = Undefined then Some Undefined else parse dt s j)"
| "parse dt (ZNullable s) = (\<lambda>j. if j = Null then Some Null else parse dt s j)"

text \<open>\<^verbatim>\<open>base.extend(more)\<close>: the keys of \<open>more\<close> replace those of the base in place, new keys follow.\<close>

definition extendShape :: "(string \<times> schema) list \<Rightarrow> (string \<times> schema) list \<Rightarrow> (string \<times> schema) list" where
  "extendShape base more =
     map (\<lambda>(k, s). (k, case map_of more k of None \<Rightarrow> s | Some s' \<Rightarrow> s')) base
       @ filter (\<lambda>(k, s). k \<notin> fst ` set base) more"


section \<open>The environment, the transport and asynchronous results\<close>

text \<open>
  A request as handed to \<^verbatim>\<open>githubRequest(url, {method, headers, body})\<close>.  The helper
  itself, \<^verbatim>\<open>buildUrl\<close>, \<^verbatim>\<open>JSON.stringify\<close> and the conversion of numbers to strings are
  not part of \<^verbatim>\<open>projects.ts\<close>: they are the fields of \<open>env\<close>.  The transport answers a
  request from the requests dispatched before it, so a remote that changes between
  calls, or a scripted test double, is an instance.
\<close>

record request =
  req_url :: string
  req_method :: "string option"
  req_headers :: "(string \<times> string) list"
  req_body :: jsval

datatype console_arg = Text string | ZodIssues

datatype console_entry =
    ConsoleError string console_arg
  | ConsoleWarn string

record world =
  sent :: "request list"
  console :: "console_entry list"

record env =
  transport :: "request list \<Rightarrow> request \<Rightarrow> error + jsval"
  buildUrl :: "string \<Rightarrow> (string \<times> string option) list \<Rightarrow> string"
  JSON_stringify :: "jsval \<Rightarrow> string"
  JSON_stringify2 :: "jsval \<Rightarrow> string"
  numberToString :: "rat \<Rightarrow> string"
  isDatetime :: "string \<Rightarrow> bool"

type_synonym 'a promise = "world \<Rightarrow> (error + 'a) \<times> world"

definition resolve :: "'a \<Rightarrow> 'a promise" where
  "resolve x w = (Inr x, w)"

definition reject :: "error \<Rightarrow> 'a promise" where
  "reject e w = (Inl e, w)"

definition settled :: "error + 'a \<Rightarrow> 'a promise" where
  "settled r w = (r, w)"

definition await :: "'a promise \<Rightarrow> ('a \<Rightarrow> 'b promise) \<Rightarrow> 'b promise" where
  "await m f w = (case m w of (Inl e, w') \<Rightarrow> (Inl e, w') | (Inr x, w') \<Rightarrow> f x w')"

definition console_error :: "string \<Rightarrow> console_arg \<Rightarrow> unit promise" where
  "console_error label arg w = (Inr (), w\<lparr>console := console w @ [ConsoleError label arg]\<rparr>)"

definition console_warn :: "string \<Rightarrow> unit promise" where
  "console_warn label w = (Inr (), w\<lparr>console := console w @ [ConsoleWarn label]\<rparr>)"

definition githubRequest :: "env \<Rightarrow> request \<Rightarrow> jsval promise" where
  "githubRequest env req w = (transport env (sent w) req, w\<lparr>sent := sent w @ [req]\<rparr>)"

text \<open>\<^verbatim>\<open>Schema.parse(v)\<close>: the parsed value, or a thrown \<open>ZodError\<close>.\<close>

definition zparse :: "env \<Rightarrow> schema \<Rightarrow> jsval \<Rightarrow> jsval promise" where
  "zparse env s v = settled (case parse (isDatetime env) s v of None \<Rightarrow> Inl ZodError | Some x \<Rightarrow> Inr x)"

text \<open>The requests an operation dispatches when started in \<open>w\<close>, in order.\<close>

definition dispatched :: "'a promise \<Rightarrow> world \<Rightarrow> request list" where
  "dispatched m w = drop (length (sent w)) (sent (snd (m w)))"

definition outcome :: "'a promise \<Rightarrow> world \<Rightarrow> error + 'a" where
  "outcome m w = fst (m w)"


section \<open>The GraphQL helper\<close>

definition GraphQLErrorSchema :: schema where
  "GraphQLErrorSchema = ZObject
     [(''message'', ZString),
      (''locations'', ZOptional (ZArray (ZObject [(''line'', ZNumber), (''column'', ZNumber)]))),
      (''path'', ZOptional (ZArray (ZUnion [ZString, ZNumber]))),
      (''extensions'', ZOptional (ZRecord ZUnknown))]"

definition GraphQLResponseSchema :: schema where
  "GraphQLResponseSchema = ZObject
     [(''data'', ZNullable (ZRecord ZUnknown)),
      (''errors'', ZOptional (ZArray GraphQLErrorSchema))]"

definition graphqlRequest :: "env \<Rightarrow> string \<Rightarrow> jsval \<Rightarrow> request" where
  "graphqlRequest env query variables =
     \<lparr>req_url = ''https://api.github.com/graphql'',
      req_method = Some ''POST'',
      req_headers = [(''Content-Type'', ''application/json'')],
      req_body = Str (JSON_stringify env (Obj [(''query'', Str query), (''variables'', variables)]))\<rparr>"

definition responseDetails :: "env \<Rightarrow> jsval \<Rightarrow> string" where
  "responseDetails env response =
     (case response of
        Obj kvs \<Rightarrow> JSON_stringify2 env response
      | Arr xs \<Rightarrow> JSON_stringify2 env response
      | Str s \<Rightarrow> s
      | _ \<Rightarrow> ''Invalid response structure.'')"

definition githubGraphQLRequest :: "env \<Rightarrow> string \<Rightarrow> jsval \<Rightarrow> jsval promise" where
  "githubGraphQLRequest env query variables =
     await (githubRequest env (graphqlRequest env query variables)) (\<lambda>response.
       case parse (isDatetime env) GraphQLResponseSchema response of
         None \<Rightarrow>
           await (console_error ''Failed to parse GraphQL response:'' ZodIssues) (\<lambda>_.
             reject (Error (''Failed to parse GraphQL response. Raw response: ''
                              @ responseDetails env response)))
       | Some parsedResponse \<Rightarrow>
           (case field parsedResponse ''errors'' of
              Arr (e # es) \<Rightarrow>
                await (console_error ''GraphQL Errors:''
                         (Text (JSON_stringify2 env (Arr (e # es))))) (\<lambda>_.
                  reject (Error (''GraphQL Error: ''
                                   @ ToString (numberToString env) (field e ''message''))))
            | _ \<Rightarrow>
                if field parsedResponse ''data'' = Null \<or> field parsedResponse ''data'' = Undefined
                then
                  await (console_error
                           ''GraphQL response data is null/undefined, Full Response:''
                           (Text (JSON_stringify2 env parsedResponse))) (\<lambda>_.
                    reject (Error
                      ''GraphQL query returned null data. Check query validity and permissions.''))
                else resolve (field parsedResponse ''data'')))"

text \<open>
  After a successful parse the \<^verbatim>\<open>errors\<close> of the response is an array or absent, so the
  test \<^verbatim>\<open>errors && errors.length > 0\<close> holds exactly for a non-empty array, whose first
  element is \<^verbatim>\<open>errors[0]\<close>.
\<close>


section \<open>Projects V2: output schemas\<close>

definition GitHubProjectV2Schema :: schema where
  "GitHubProjectV2Schema = ZObject
     [(''id'', ZString),
      (''title'', ZString),
      (''number'', ZNumber),
      (''url'', ZString),
      (''closed'', ZBoolean),
      (''public'', ZBoolean),
      (''readme'', ZNullable ZString),
      (''createdAt'', ZDatetime),
      (''updatedAt'', ZDatetime),
      (''creator'', ZNullable (ZObject
          [(''login'', ZString), (''url'', ZString), (''avatarUrl'', ZOptional ZString)])),
      (''owner'', ZObject [(''id'', ZString)])]"

definition PageInfoSchema :: schema where
  "PageInfoSchema = ZObject
     [(''endCursor'', ZNullable ZString),
      (''hasNextPage'', ZBoolean),
      (''hasPreviousPage'', ZBoolean),
      (''startCursor'', ZNullable ZString)]"

definition ProjectV2ConnectionSchema :: schema where
  "ProjectV2ConnectionSchema = ZObject
     [(''nodes'', ZNullable (ZArray GitHubProjectV2Schema)),
      (''pageInfo'', PageInfoSchema),
      (''totalCount'', ZNumber)]"

definition ProjectV2FieldCommonShape :: "(string \<times> schema) list" where
  "ProjectV2FieldCommonShape =
     [(''id'', ZString),
      (''name'', ZString),
      (''dataType'', ZEnum [''TEXT'', ''NUMBER'', ''DATE'', ''SINGLE_SELECT'', ''ITERATION'', ''ASSIGNEES'']),
      (''createdAt'', ZDatetime),
      (''updatedAt'', ZDatetime)]"

definition ProjectV2FieldCommonSchema :: schema where
  "ProjectV2FieldCommonSchema = ZObject ProjectV2FieldCommonShape"

definition ProjectV2SingleSelectFieldOptionSchema :: schema where
  "ProjectV2SingleSelectFieldOptionSchema = ZObject [(''id'', ZString), (''name'', ZString)]"

definition ProjectV2SingleSelectFieldSchema :: schema where
  "ProjectV2SingleSelectFieldSchema = ZObject (extendShape ProjectV2FieldCommonShape
     [(''dataType'', ZLiteral ''SINGLE_SELECT''),
      (''options'', ZArray ProjectV2SingleSelectFieldOptionSchema)])"

definition ProjectV2FieldSchema :: schema where
  "ProjectV2FieldSchema = ZUnion [ProjectV2SingleSelectFieldSchema, ProjectV2FieldCommonSchema]"

definition ProjectV2FieldConnectionSchema :: schema where
  "ProjectV2FieldConnectionSchema = ZObject
     [(''nodes'', ZNullable (ZArray ProjectV2FieldSchema)),
      (''pageInfo'', PageInfoSchema),
      (''totalCount'', ZNumber)]"

definition ProjectV2ItemSchema :: schema where
  "ProjectV2ItemSchema = ZObject
     [(''id'', ZString),
      (''createdAt'', ZDatetime),
      (''updatedAt'', ZDatetime),
      (''isArchived'', ZBoolean),
      (''project'', ZObject [(''id'', ZString), (''title'', ZString), (''number'', ZNumber)]),
      (''type'', ZEnum [''ISSUE'', ''PULL_REQUEST'', ''DRAFT_ISSUE'']),
      (''fieldValues'', ZOptional (ZObject
          [(''nodes'', ZNullable (ZArray (ZObject
              [(''field'', ZObject [(''id'', ZString), (''name'', ZString)]),
               (''value'', ZOptional ZUnknown)]))),
           (''totalCount'', ZNumber)])),
      (''content'', ZOptional (ZUnion
          [ZObject
             [(''__typename'', ZLiteral ''Issue''),
              (''id'', ZString),
              (''number'', ZNumber),
              (''title'', ZString),
              (''url'', ZString),
              (''state'', ZString)],
           ZObject
             [(''__typename'', ZLiteral ''PullRequest''),
              (''id'', ZString),
              (''number'', ZNumber),
              (''title'', ZString),
              (''url'', ZString),
              (''state'', ZString)],
           ZObject
             [(''__typename'', ZLiteral ''DraftIssue''),
              (''id'', ZString),
              (''title'', ZString),
              (''body'', ZString)],
           ZNull]))]"

definition ProjectV2ItemConnectionSchema :: schema where
  "ProjectV2ItemConnectionSchema = ZObject
     [(''nodes'', ZNullable (ZArray ProjectV2ItemSchema)),
      (''pageInfo'', PageInfoSchema),
      (''totalCount'', ZNumber)]"


section \<open>Projects V2: GraphQL documents\<close>

definition LIST_ORG_PROJECTS_V2_QUERY :: string where
  \<open>LIST_ORG_PROJECTS_V2_QUERY = ''
  query ListOrgProjectsV2($orgLogin: String!, $first: Int, $after: String) {
    organization(login: $orgLogin) {
      projectsV2(first: $first, after: $after, orderBy: {field: UPDATED_AT, direction: DESC}) {
        nodes {
          id
          title
          number
          url
          closed
          public
          readme
          createdAt
          updatedAt
          creator {
            login
            url
            ... on User { avatarUrl }
          }
          owner {
            id
          }
        }
        pageInfo {
          endCursor
          hasNextPage
          hasPreviousPage
          startCursor
        }
        totalCount
      }
    }
  }
''\<close>


definition LIST_REPO_PROJECTS_V2_QUERY :: string where
  \<open>LIST_REPO_PROJECTS_V2_QUERY = ''
  query ListRepoProjectsV2($ownerLogin: String!, $repoName: String!, $first: Int, $after: String) {
    repository(owner: $ownerLogin, name: $repoName) {
      projectsV2(first: $first, after: $after, orderBy: {field: UPDATED_AT, direction: DESC}) {
        nodes {
          id
          title
          number
          url
          closed
          public
          readme
          createdAt
          updatedAt
          creator {
            login
            url
            ... on User { avatarUrl }
          }
          owner {
            id
          }
        }
        pageInfo {
          endCursor
          hasNextPage
          hasPreviousPage
          startCursor
        }
        totalCount
      }
    }
  }
''\<close>


definition GET_PROJECT_V2_QUERY :: string where
  \<open>GET_PROJECT_V2_QUERY = ''
  query GetProjectV2($projectId: ID!) {
    node(id: $projectId) {
      ... on ProjectV2 {
        id
        title
        number
        url
        closed
        public
        readme
        createdAt
        updatedAt
        creator {
          login
          url
          ... on User { avatarUrl }
        }
        owner {
          id
        }
        # Add fields, items, views connection here if needed later
      }
    }
  }
''\<close>

definition UPDATE_PROJECT_V2_MUTATION :: string where
  \<open>UPDATE_PROJECT_V2_MUTATION = ''
  mutation UpdateProjectV2(
    $projectId: ID!
    $title: String
    $readme: String
    $closed: Boolean
    # $public: Boolean - Add if needed
  ) {
    updateProjectV2(input: {
      projectId: $projectId
      title: $title
      readme: $readme
      closed: $closed
      # public: $public
    }) {
      projectV2 {
        id
        title
        number
        url
        closed
        public
        readme
        createdAt
        updatedAt
        # Return updated fields
      }
    }
  }
''\<close>

definition DELETE_PROJECT_V2_MUTATION :: string where
  \<open>DELETE_PROJECT_V2_MUTATION = ''
  mutation DeleteProjectV2($projectId: ID!) {
    deleteProjectV2(input: {projectId: $projectId}) {
      clientMutationId # Or projectV2 { id } - confirmation field
    }
  }
''\<close>

definition LIST_PROJECT_FIELDS_QUERY :: string where
  \<open>LIST_PROJECT_FIELDS_QUERY = ''
  query ListProjectFieldsV2($projectId: ID!, $first: Int, $after: String) {
    node(id: $projectId) {
      ... on ProjectV2 {
        fields(first: $first, after: $after) {
          totalCount
          pageInfo {
            endCursor
            hasNextPage
          }
          nodes {
            __typename
            ... on ProjectV2Field {
              id
              name
              dataType
              createdAt
              updatedAt
            }
            ... on ProjectV2IterationField {
              id
              name
              dataType
              createdAt
              updatedAt
              configuration {
                iterations {
                  id
                  title
                  startDate
                  duration
                }
                # completedIterations { ... }
                # durationUnit
                # startDay
              }
            }
            ... on ProjectV2SingleSelectField {
              id
              name
              dataType
              createdAt
              updatedAt
              options {
                id
                name
              }
            }
            # Add fragments for other specific field types if needed
          }
        }
      }
    }
  }
''\<close>

definition LIST_PROJECT_ITEMS_QUERY :: string where
  \<open>LIST_PROJECT_ITEMS_QUERY = ''
  query ListProjectItemsV2($projectId: ID!, $first: Int, $after: String) {
    node(id: $projectId) {
      ... on ProjectV2 {
        items(first: $first, after: $after, orderBy: {field: POSITION, direction: ASC}) {
          totalCount
          pageInfo {
            endCursor
            hasNextPage
          }
          nodes {
            id
            createdAt
            updatedAt
            isArchived
            type
            project { id title number }
            # Include content or fieldValues here if always needed
            # Example: Fetching Status field value by name
            # fieldValueByName(name: "Status") {
            #   ... on ProjectV2ItemFieldSingleSelectValue {
            #     name # Option name
            #     optionId
            #   }
            # }
            content {
              __typename
              ... on DraftIssue {
                id title body
              }
              ... on Issue {
                id number title url state
              }
              ... on PullRequest {
                id number title url state
              }
            }
          }
        }
      }
    }
  }
''\<close>

definition ADD_PROJECT_DRAFT_ISSUE_MUTATION :: string where
  \<open>ADD_PROJECT_DRAFT_ISSUE_MUTATION = ''
  mutation AddDraftIssue($projectId: ID!, $title: String!, $body: String) {
    addProjectV2DraftIssue(input: {projectId: $projectId, title: $title, body: $body}) {
      projectItem {
        id
        # Include fields from ProjectV2ItemSchema if needed upon creation
      }
    }
  }
''\<close>

definition ADD_PROJECT_ITEM_BY_ID_MUTATION :: string where
  \<open>ADD_PROJECT_ITEM_BY_ID_MUTATION = ''
  mutation AddItemById($projectId: ID!, $contentId: ID!) {
    addProjectV2ItemById(input: {projectId: $projectId, contentId: $contentId}) {
      item {
        id
        # Include fields from ProjectV2ItemSchema if needed upon creation
      }
    }
  }
''\<close>

definition UPDATE_PROJECT_ITEM_FIELD_MUTATION :: string where
  \<open>UPDATE_PROJECT_ITEM_FIELD_MUTATION = ''
  mutation UpdateItemFieldValue(
    $projectId: ID!
    $itemId: ID!
    $fieldId: ID!
    $value: ProjectV2FieldValue! # This input type covers all value possibilities
  ) {
    updateProjectV2ItemFieldValue(input: {
      projectId: $projectId
      itemId: $itemId
      fieldId: $fieldId
      value: $value
    }) {
      projectV2Item {
        id
        # Optionally refetch the updated field value
        # fieldValueByName(name: "Status") { ... } # Replace "Status" with actual field name or query by ID
      }
    }
  }
''\<close>

definition DELETE_PROJECT_ITEM_MUTATION :: string where
  \<open>DELETE_PROJECT_ITEM_MUTATION = ''
  mutation DeleteItem($projectId: ID!, $itemId: ID!) {
    deleteProjectV2Item(input: {projectId: $projectId, itemId: $itemId}) {
      deletedItemId
    }
  }
''\<close>

definition GetOrgId :: string where
  \<open>GetOrgId = ''query GetOrgId($login: String!) { organization(login: $login) { id } }''\<close>




section \<open>Projects V2: identifier lookups\<close>





section \<open>Projects V2: operations\<close>

definition listOrgProjectsV2 ::
  "env \<Rightarrow> string \<Rightarrow> rat option \<Rightarrow> string option \<Rightarrow> jsval promise" where
  "listOrgProjectsV2 env orgLogin first after =
     await (githubGraphQLRequest env LIST_ORG_PROJECTS_V2_QUERY
              (Obj [(''orgLogin'', Str orgLogin),
                    (''first'', Num (case first of None \<Rightarrow> 30 | Some n \<Rightarrow> n)),
                    (''after'', optStr after)])) (\<lambda>result.
       await (settled (getPath result [''organization'', ''projectsV2''])) (\<lambda>projectsV2.
         zparse env ProjectV2ConnectionSchema projectsV2))"


definition listRepoProjectsV2 ::
  "env \<Rightarrow> string \<Rightarrow> string \<Rightarrow> rat option \<Rightarrow> string option \<Rightarrow> jsval promise" where
  "listRepoProjectsV2 env ownerLogin repoName first after =
     await (githubGraphQLRequest env LIST_REPO_PROJECTS_V2_QUERY
              (Obj [(''ownerLogin'', Str ownerLogin),
                    (''repoName'', Str repoName),
                    (''first'', Num (case first of None \<Rightarrow> 30 | Some n \<Rightarrow> n)),
                    (''after'', optStr after)])) (\<lambda>result.
       await (settled (getPath result [''repository'', ''projectsV2''])) (\<lambda>projectsV2.
         zparse env ProjectV2ConnectionSchema projectsV2))"


definition getProjectV2 :: "env \<Rightarrow> string \<Rightarrow> jsval promise" where
  "getProjectV2 env projectId =
     await (githubGraphQLRequest env GET_PROJECT_V2_QUERY (Obj [(''projectId'', Str projectId)]))
       (\<lambda>result.
         if \<not> truthy (field result ''node'')
         then reject (Error (''Project V2 with Node ID '' @ projectId
                               @ '' not found or not accessible.''))
         else zparse env GitHubProjectV2Schema (field result ''node''))"

text \<open>
  \<^verbatim>\<open>updateProjectV2\<close> starts its variables from the project id and adds a key for each
  field that is not \<^verbatim>\<open>undefined\<close>; \<^verbatim>\<open>Object.keys(variables).length\<close> is the number of
  entries.
\<close>

definition updateVariables ::
  "string \<Rightarrow> string option \<Rightarrow> string option \<Rightarrow> bool option \<Rightarrow> (string \<times> jsval) list" where
  "updateVariables projectId title readme closedFlag =
     [(''projectId'', Str projectId)]
       @ (case title of None \<Rightarrow> [] | Some t \<Rightarrow> [(''title'', Str t)])
       @ (case readme of None \<Rightarrow> [] | Some r \<Rightarrow> [(''readme'', Str r)])
       @ (case closedFlag of None \<Rightarrow> [] | Some c \<Rightarrow> [(''closed'', Bool c)])"

definition updateProjectV2 ::
  "env \<Rightarrow> string \<Rightarrow> string option \<Rightarrow> string option \<Rightarrow> bool option \<Rightarrow> jsval promise" where
  "updateProjectV2 env projectId title readme closedFlag =
     (let variables = updateVariables projectId title readme closedFlag in
      if length variables \<le> 1
      then await (console_warn ''updateProjectV2 called without any fields to update.'') (\<lambda>_.
             getProjectV2 env projectId)
      else await (githubGraphQLRequest env UPDATE_PROJECT_V2_MUTATION (Obj variables)) (\<lambda>result.
             await (settled (getPath result [''updateProjectV2'', ''projectV2''])) (\<lambda>projectV2.
               zparse env GitHubProjectV2Schema projectV2)))"

definition deleteProjectV2 :: "env \<Rightarrow> string \<Rightarrow> jsval promise" where
  "deleteProjectV2 env projectId =
     await (githubGraphQLRequest env DELETE_PROJECT_V2_MUTATION
              (Obj [(''projectId'', Str projectId)])) (\<lambda>_.
       resolve Undefined)"

definition listProjectFieldsV2 ::
  "env \<Rightarrow> string \<Rightarrow> rat option \<Rightarrow> string option \<Rightarrow> jsval promise" where
  "listProjectFieldsV2 env projectId first after =
     await (githubGraphQLRequest env LIST_PROJECT_FIELDS_QUERY
              (Obj [(''projectId'', Str projectId),
                    (''first'', Num (case first of None \<Rightarrow> 30 | Some n \<Rightarrow> n)),
                    (''after'', optStr after)])) (\<lambda>result.
       if \<not> truthy (field result ''node'') \<or> \<not> truthy (field (field result ''node'') ''fields'')
       then reject (Error (''Fields for Project V2 '' @ projectId
                             @ '' not found or project doesn't exist.''))
       else await (console_warn ''TODO: Add robust Zod validation for listProjectFieldsV2 response'')
              (\<lambda>_. resolve (field (field result ''node'') ''fields'')))"

definition listProjectItemsV2 ::
  "env \<Rightarrow> string \<Rightarrow> rat option \<Rightarrow> string option \<Rightarrow> jsval promise" where
  "listProjectItemsV2 env projectId first after =
     await (githubGraphQLRequest env LIST_PROJECT_ITEMS_QUERY
              (Obj [(''projectId'', Str projectId),
                    (''first'', Num (case first of None \<Rightarrow> 30 | Some n \<Rightarrow> n)),
                    (''after'', optStr after)])) (\<lambda>result.
       if \<not> truthy (field result ''node'') \<or> \<not> truthy (field (field result ''node'') ''items'')
       then reject (Error (''Items for Project V2 '' @ projectId
                             @ '' not found or project doesn't exist.''))
       else zparse env ProjectV2ItemConnectionSchema (field (field result ''node'') ''items''))"

definition addProjectDraftIssueV2 ::
  "env \<Rightarrow> string \<Rightarrow> string \<Rightarrow> string option \<Rightarrow> jsval promise" where
  "addProjectDraftIssueV2 env projectId title body =
     await (githubGraphQLRequest env ADD_PROJECT_DRAFT_ISSUE_MUTATION
              (Obj [(''projectId'', Str projectId),
                    (''title'', Str title),
                    (''body'', optStr body)])) (\<lambda>result.
       settled (getPath result [''addProjectV2DraftIssue'', ''projectItem'']))"

definition addProjectItemByIdV2 :: "env \<Rightarrow> string \<Rightarrow> string \<Rightarrow> jsval promise" where
  "addProjectItemByIdV2 env projectId contentId =
     await (githubGraphQLRequest env ADD_PROJECT_ITEM_BY_ID_MUTATION
              (Obj [(''projectId'', Str projectId), (''contentId'', Str contentId)])) (\<lambda>result.
       settled (getPath result [''addProjectV2ItemById'', ''item'']))"

text \<open>
  The \<^verbatim>\<open>value\<close> of \<^verbatim>\<open>updateProjectItemFieldValueV2\<close> is one of six one-key objects and is
  forwarded as it is.
\<close>

definition updateProjectItemFieldValueV2 ::
  "env \<Rightarrow> string \<Rightarrow> string \<Rightarrow> string \<Rightarrow> jsval \<Rightarrow> jsval promise" where
  "updateProjectItemFieldValueV2 env projectId itemId fieldId fieldValue =
     await (githubGraphQLRequest env UPDATE_PROJECT_ITEM_FIELD_MUTATION
              (Obj [(''projectId'', Str projectId),
                    (''itemId'', Str itemId),
                    (''fieldId'', Str fieldId),
                    (''value'', fieldValue)])) (\<lambda>result.
       settled (getPath result [''updateProjectV2ItemFieldValue'', ''projectV2Item'']))"

definition deleteProjectItemV2 :: "env \<Rightarrow> string \<Rightarrow> string \<Rightarrow> jsval promise" where
  "deleteProjectItemV2 env projectId itemId =
     await (githubGraphQLRequest env DELETE_PROJECT_ITEM_MUTATION
              (Obj [(''projectId'', Str projectId), (''itemId'', Str itemId)])) (\<lambda>result.
       settled (getPath result [''deleteProjectV2Item'']))"


section \<open>Classic projects: schemas\<close>

definition creatorSchema :: schema where
  "creatorSchema = ZObject
     [(''login'', ZString),
      (''id'', ZNumber),
      (''avatar_url'', ZString),
      (''url'', ZString),
      (''html_url'', ZString)]"

definition GitHubProjectSchema :: schema where
  "GitHubProjectSchema = ZObject
     [(''id'', ZNumber),
      (''node_id'', ZString),
      (''url'', ZString),
      (''html_url'', ZString),
      (''columns_url'', ZString),
      (''name'', ZString),
      (''body'', ZNullable ZString),
      (''number'', ZNumber),
      (''state'', ZEnum [''open'', ''closed'']),
      (''creator'', creatorSchema),
      (''created_at'', ZString),
      (''updated_at'', ZString)]"

definition GitHubProjectColumnSchema :: schema where
  "GitHubProjectColumnSchema = ZObject
     [(''id'', ZNumber),
      (''node_id'', ZString),
      (''url'', ZString),
      (''project_url'', ZString),
      (''cards_url'', ZString),
      (''name'', ZString),
      (''created_at'', ZString),
      (''updated_at'', ZString)]"

definition GitHubProjectCardSchema :: schema where
  "GitHubProjectCardSchema = ZObject
     [(''id'', ZNumber),
      (''node_id'', ZString),
      (''url'', ZString),
      (''column_url'', ZString),
      (''content_url'', ZNullable ZString),
      (''project_url'', ZString),
      (''creator'', creatorSchema),
      (''created_at'', ZString),
      (''updated_at'', ZString),
      (''note'', ZNullable ZString),
      (''archived'', ZBoolean)]"

definition MoveProjectCardSchema :: schema where
  "MoveProjectCardSchema = ZObject
     [(''owner'', ZString),
      (''repo'', ZString),
      (''project_number'', ZNumber),
      (''card_id'', ZNumber),
      (''position'', ZEnum [''top'', ''bottom'', ''after:<card_id>'']),
      (''column_id'', ZOptional ZNumber)]"


section \<open>Classic projects: operations\<close>

text \<open>
  The second version of \<^verbatim>\<open>projects.ts\<close> reaches the classic boards through the REST
  endpoints.  An \<^verbatim>\<open>options\<close> object that is sent as the request body is passed as the
  value it is; the options of a listing are passed field by field.  An operation
  declared \<^verbatim>\<open>Promise<void>\<close> resolves to \<open>Undefined\<close>.
\<close>

definition findProject :: "jsval \<Rightarrow> rat \<Rightarrow> jsval option" where
  "findProject projects projectNumber =
     (case projects of
        Arr ps \<Rightarrow> find (\<lambda>p. field p ''number'' = Num projectNumber) ps
      | _ \<Rightarrow> None)"

definition listProjects ::
  "env \<Rightarrow> string \<Rightarrow> string \<Rightarrow> string option \<Rightarrow> rat option \<Rightarrow> rat option \<Rightarrow> jsval promise" where
  "listProjects env owner repo state per_page page =
     (let url = buildUrl env (''https://api.github.com/repos/'' @ owner @ ''/'' @ repo @ ''/projects'')
                  [(''state'', state),
                   (''per_page'', map_option (numberToString env) per_page),
                   (''page'', map_option (numberToString env) page)] in
      await (githubRequest env
               \<lparr>req_url = url,
                req_method = None,
                req_headers = [(''Accept'', ''application/vnd.github.inertia-preview+json'')],
                req_body = Undefined\<rparr>) (\<lambda>response.
        zparse env (ZArray GitHubProjectSchema) response))"

definition createProject ::
  "env \<Rightarrow> string \<Rightarrow> string \<Rightarrow> jsval \<Rightarrow> jsval promise" where
  "createProject env owner repo options =
     await (githubRequest env
              \<lparr>req_url = (''https://api.github.com/repos/'' @ owner @ ''/'' @ repo @ ''/projects''),
                req_method = Some ''POST'',
                req_headers = [(''Accept'', ''application/vnd.github.inertia-preview+json'')],
                req_body = options\<rparr>) (\<lambda>response.
       zparse env GitHubProjectSchema response)"

definition getProject ::
  "env \<Rightarrow> string \<Rightarrow> string \<Rightarrow> rat \<Rightarrow> jsval promise" where
  "getProject env owner repo projectNumber =
     await (listProjects env owner repo None None None) (\<lambda>projects.
       case findProject projects projectNumber of
         None \<Rightarrow>
           reject (Error (''Project number '' @ numberToString env projectNumber
                            @ '' not found in repository '' @ owner @ ''/'' @ repo))
       | Some project \<Rightarrow>
           await (githubRequest env
                    \<lparr>req_url = ToString (numberToString env) (field project ''url''),
                req_method = None,
                req_headers = [(''Accept'', ''application/vnd.github.inertia-preview+json'')],
                req_body = Undefined\<rparr>) (\<lambda>response.
             zparse env GitHubProjectSchema response))"

definition updateProject ::
  "env \<Rightarrow> string \<Rightarrow> string \<Rightarrow> rat \<Rightarrow> jsval \<Rightarrow> jsval promise" where
  "updateProject env owner repo projectNumber options =
     await (getProject env owner repo projectNumber) (\<lambda>project.
       await (githubRequest env
                \<lparr>req_url = ToString (numberToString env) (field project ''url''),
                req_method = Some ''PATCH'',
                req_headers = [(''Accept'', ''application/vnd.github.inertia-preview+json'')],
                req_body = options\<rparr>) (\<lambda>response.
         zparse env GitHubProjectSchema response))"

definition deleteProject ::
  "env \<Rightarrow> string \<Rightarrow> string \<Rightarrow> rat \<Rightarrow> jsval promise" where
  "deleteProject env owner repo projectNumber =
     await (getProject env owner repo projectNumber) (\<lambda>project.
       await (githubRequest env
                \<lparr>req_url = ToString (numberToString env) (field project ''url''),
                req_method = Some ''DELETE'',
                req_headers = [(''Accept'', ''application/vnd.github.inertia-preview+json'')],
                req_body = Undefined\<rparr>) (\<lambda>_.
         resolve Undefined))"

definition listProjectColumns ::
  "env \<Rightarrow> string \<Rightarrow> string \<Rightarrow> rat \<Rightarrow> rat option \<Rightarrow> rat option \<Rightarrow> jsval promise" where
  "listProjectColumns env owner repo projectNumber per_page page =
     await (getProject env owner repo projectNumber) (\<lambda>project.
       let url = buildUrl env (ToString (numberToString env) (field project ''columns_url''))
                   [(''per_page'', map_option (numberToString env) per_page),
                    (''page'', map_option (numberToString env) page)] in
       await (githubRequest env
                \<lparr>req_url = url,
                req_method = None,
                req_headers = [(''Accept'', ''application/vnd.github.inertia-preview+json'')],
                req_body = Undefined\<rparr>) (\<lambda>response.
         zparse env (ZArray GitHubProjectColumnSchema) response))"

definition createProjectColumn ::
  "env \<Rightarrow> string \<Rightarrow> string \<Rightarrow> rat \<Rightarrow> jsval \<Rightarrow> jsval promise" where
  "createProjectColumn env owner repo projectNumber options =
     await (getProject env owner repo projectNumber) (\<lambda>project.
       await (githubRequest env
                \<lparr>req_url = ToString (numberToString env) (field project ''columns_url''),
                req_method = Some ''POST'',
                req_headers = [(''Accept'', ''application/vnd.github.inertia-preview+json'')],
                req_body = options\<rparr>) (\<lambda>response.
         zparse env GitHubProjectColumnSchema response))"

definition updateProjectColumn ::
  "env \<Rightarrow> string \<Rightarrow> string \<Rightarrow> rat \<Rightarrow> rat \<Rightarrow> jsval \<Rightarrow> jsval promise" where
  "updateProjectColumn env owner repo projectNumber columnId options =
     await (githubRequest env
              \<lparr>req_url = (''https://api.github.com/projects/columns/'' @ numberToString env columnId),
                req_method = Some ''PATCH'',
                req_headers = [(''Accept'', ''application/vnd.github.inertia-preview+json'')],
                req_body = options\<rparr>) (\<lambda>response.
       zparse env GitHubProjectColumnSchema response)"

definition deleteProjectColumn ::
  "env \<Rightarrow> string \<Rightarrow> string \<Rightarrow> rat \<Rightarrow> rat \<Rightarrow> jsval promise" where
  "deleteProjectColumn env owner repo projectNumber columnId =
     await (githubRequest env
              \<lparr>req_url = (''https://api.github.com/projects/columns/'' @ numberToString env columnId),
                req_method = Some ''DELETE'',
                req_headers = [(''Accept'', ''application/vnd.github.inertia-preview+json'')],
                req_body = Undefined\<rparr>) (\<lambda>_.
       resolve Undefined)"

definition listProjectCards ::
  "env \<Rightarrow> string \<Rightarrow> string \<Rightarrow> rat \<Rightarrow> rat \<Rightarrow> string option \<Rightarrow> rat option \<Rightarrow> rat option
     \<Rightarrow> jsval promise" where
  "listProjectCards env owner repo projectNumber columnId archived_state per_page page =
     (let url = buildUrl env (''https://api.github.com/projects/columns/'' @ numberToString env columnId @ ''/cards'')
                  [(''archived_state'', archived_state),
                   (''per_page'', map_option (numberToString env) per_page),
                   (''page'', map_option (numberToString env) page)] in
      await (githubRequest env
               \<lparr>req_url = url,
                req_method = None,
                req_headers = [(''Accept'', ''application/vnd.github.inertia-preview+json'')],
                req_body = Undefined\<rparr>) (\<lambda>response.
        zparse env (ZArray GitHubProjectCardSchema) response))"

definition createProjectCard ::
  "env \<Rightarrow> string \<Rightarrow> string \<Rightarrow> rat \<Rightarrow> rat \<Rightarrow> jsval \<Rightarrow> jsval promise" where
  "createProjectCard env owner repo projectNumber columnId options =
     await (githubRequest env
              \<lparr>req_url = (''https://api.github.com/projects/columns/'' @ numberToString env columnId @ ''/cards''),
                req_method = Some ''POST'',
                req_headers = [(''Accept'', ''application/vnd.github.inertia-preview+json'')],
                req_body = options\<rparr>) (\<lambda>response.
       zparse env GitHubProjectCardSchema response)"

definition updateProjectCard ::
  "env \<Rightarrow> string \<Rightarrow> string \<Rightarrow> rat \<Rightarrow> rat \<Rightarrow> jsval \<Rightarrow> jsval promise" where
  "updateProjectCard env owner repo projectNumber cardId options =
     await (githubRequest env
              \<lparr>req_url = (''https://api.github.com/projects/cards/'' @ numberToString env cardId),
                req_method = Some ''PATCH'',
                req_headers = [(''Accept'', ''application/vnd.github.inertia-preview+json'')],
                req_body = options\<rparr>) (\<lambda>response.
       zparse env GitHubProjectCardSchema response)"

definition deleteProjectCard ::
  "env \<Rightarrow> string \<Rightarrow> string \<Rightarrow> rat \<Rightarrow> rat \<Rightarrow> jsval promise" where
  "deleteProjectCard env owner repo projectNumber cardId =
     await (githubRequest env
              \<lparr>req_url = (''https://api.github.com/projects/cards/'' @ numberToString env cardId),
                req_method = Some ''DELETE'',
                req_headers = [(''Accept'', ''application/vnd.github.inertia-preview+json'')],
                req_body = Undefined\<rparr>) (\<lambda>_.
       resolve Undefined)"

definition moveProjectCard ::
  "env \<Rightarrow> string \<Rightarrow> string \<Rightarrow> rat \<Rightarrow> rat \<Rightarrow> string \<Rightarrow> rat option \<Rightarrow> jsval promise" where
  "moveProjectCard env owner repo projectNumber cardId position columnId =
     (let body = Obj ([(''position'', Str position)]
                       @ (if truthy (optNum columnId) then [(''column_id'', optNum columnId)] else [])) in
      await (githubRequest env
               \<lparr>req_url = (''https://api.github.com/projects/cards/'' @ numberToString env cardId @ ''/moves''),
                req_method = Some ''POST'',
                req_headers = [(''Accept'', ''application/vnd.github.inertia-preview+json'')],
                req_body = body\<rparr>) (\<lambda>_.
        resolve Undefined))"


text \<open>The organization-level operations.\<close>

definition listOrgProjects ::
  "env \<Rightarrow> string \<Rightarrow> string option \<Rightarrow> rat option \<Rightarrow> rat option \<Rightarrow> jsval promise" where
  "listOrgProjects env org state per_page page =
     (let url = buildUrl env (''https://api.github.com/orgs/'' @ org @ ''/projects'')
                  [(''state'', state),
                   (''per_page'', map_option (numberToString env) per_page),
                   (''page'', map_option (numberToString env) page)] in
      await (githubRequest env
               \<lparr>req_url = url,
                req_method = None,
                req_headers = [(''Accept'', ''application/vnd.github.inertia-preview+json'')],
                req_body = Undefined\<rparr>) (\<lambda>response.
        zparse env (ZArray GitHubProjectSchema) response))"

definition createOrgProject ::
  "env \<Rightarrow> string \<Rightarrow> jsval \<Rightarrow> jsval promise" where
  "createOrgProject env org options =
     await (githubRequest env
              \<lparr>req_url = (''https://api.github.com/orgs/'' @ org @ ''/projects''),
                req_method = Some ''POST'',
                req_headers = [(''Accept'', ''application/vnd.github.inertia-preview+json'')],
                req_body = options\<rparr>) (\<lambda>response.
       zparse env GitHubProjectSchema response)"

definition getOrgProject ::
  "env \<Rightarrow> string \<Rightarrow> rat \<Rightarrow> jsval promise" where
  "getOrgProject env org projectNumber =
     await (listOrgProjects env org None None None) (\<lambda>projects.
       case findProject projects projectNumber of
         None \<Rightarrow>
           reject (Error (''Project number '' @ numberToString env projectNumber
                            @ '' not found in organization '' @ org))
       | Some project \<Rightarrow>
           await (githubRequest env
                    \<lparr>req_url = ToString (numberToString env) (field project ''url''),
                req_method = None,
                req_headers = [(''Accept'', ''application/vnd.github.inertia-preview+json'')],
                req_body = Undefined\<rparr>) (\<lambda>response.
             zparse env GitHubProjectSchema response))"

definition updateOrgProject ::
  "env \<Rightarrow> string \<Rightarrow> rat \<Rightarrow> jsval \<Rightarrow> jsval promise" where
  "updateOrgProject env org projectNumber options =
     await (getOrgProject env org projectNumber) (\<lambda>project.
       await (githubRequest env
                \<lparr>req_url = ToString (numberToString env) (field project ''url''),
                req_method = Some ''PATCH'',
                req_headers = [(''Accept'', ''application/vnd.github.inertia-preview+json'')],
                req_body = options\<rparr>) (\<lambda>response.
         zparse env GitHubProjectSchema response))"

definition deleteOrgProject ::
  "env \<Rightarrow> string \<Rightarrow> rat \<Rightarrow> jsval promise" where
  "deleteOrgProject env org projectNumber =
     await (getOrgProject env org projectNumber) (\<lambda>project.
       await (githubRequest env
                \<lparr>req_url = ToString (numberToString env) (field project ''url''),
                req_method = Some ''DELETE'',
                req_headers = [(''Accept'', ''application/vnd.github.inertia-preview+json'')],
                req_body = Undefined\<rparr>) (\<lambda>_.
         resolve Undefined))"

definition listOrgProjectColumns ::
  "env \<Rightarrow> string \<Rightarrow> rat \<Rightarrow> rat option \<Rightarrow> rat option \<Rightarrow> jsval promise" where
  "listOrgProjectColumns env org projectNumber per_page page =
     await (getOrgProject env org projectNumber) (\<lambda>project.
       let url = buildUrl env (ToString (numberToString env) (field project ''columns_url''))
                   [(''per_page'', map_option (numberToString env) per_page),
                    (''page'', map_option (numberToString env) page)] in
       await (githubRequest env
                \<lparr>req_url = url,
                req_method = None,
                req_headers = [(''Accept'', ''application/vnd.github.inertia-preview+json'')],
                req_body = Undefined\<rparr>) (\<lambda>response.
         zparse env (ZArray GitHubProjectColumnSchema) response))"

definition createOrgProjectColumn ::
  "env \<Rightarrow> string \<Rightarrow> rat \<Rightarrow> jsval \<Rightarrow> jsval promise" where
  "createOrgProjectColumn env org projectNumber options =
     await (getOrgProject env org projectNumber) (\<lambda>project.
       await (githubRequest env
                \<lparr>req_url = ToString (numberToString env) (field project ''columns_url''),
                req_method = Some ''POST'',
                req_headers = [(''Accept'', ''application/vnd.github.inertia-preview+json'')],
                req_body = options\<rparr>) (\<lambda>response.
         zparse env GitHubProjectColumnSchema response))"

definition updateOrgProjectColumn ::
  "env \<Rightarrow> string \<Rightarrow> rat \<Rightarrow> rat \<Rightarrow> jsval \<Rightarrow> jsval promise" where
  "updateOrgProjectColumn env org projectNumber columnId options =
     await (githubRequest env
              \<lparr>req_url = (''https://api.github.com/projects/columns/'' @ numberToString env columnId),
                req_method = Some ''PATCH'',
                req_headers = [(''Accept'', ''application/vnd.github.inertia-preview+json'')],
                req_body = options\<rparr>) (\<lambda>response.
       zparse env GitHubProjectColumnSchema response)"

definition deleteOrgProjectColumn ::
  "env \<Rightarrow> string \<Rightarrow> rat \<Rightarrow> rat \<Rightarrow> jsval promise" where
  "deleteOrgProjectColumn env org projectNumber columnId =
     await (githubRequest env
              \<lparr>req_url = (''https://api.github.com/projects/columns/'' @ numberToString env columnId),
                req_method = Some ''DELETE'',
                req_headers = [(''Accept'', ''application/vnd.github.inertia-preview+json'')],
                req_body = Undefined\<rparr>) (\<lambda>_.
       resolve Undefined)"

definition listOrgProjectCards ::
  "env \<Rightarrow> string \<Rightarrow> rat \<Rightarrow> rat \<Rightarrow> string option \<Rightarrow> rat option \<Rightarrow> rat option
     \<Rightarrow> jsval promise" where
  "listOrgProjectCards env org projectNumber columnId archived_state per_page page =
     (let url = buildUrl env (''https://api.github.com/projects/columns/'' @ numberToString env columnId @ ''/cards'')
                  [(''archived_state'', archived_state),
                   (''per_page'', map_option (numberToString env) per_page),
                   (''page'', map_option (numberToString env) page)] in
      await (githubRequest env
               \<lparr>req_url = url,
                req_method = None,
                req_headers = [(''Accept'', ''application/vnd.github.inertia-preview+json'')],
                req_body = Undefined\<rparr>) (\<lambda>response.
        zparse env (ZArray GitHubProjectCardSchema) response))"

definition createOrgProjectCard ::
  "env \<Rightarrow> string \<Rightarrow> rat \<Rightarrow> rat \<Rightarrow> jsval \<Rightarrow> jsval promise" where
  "createOrgProjectCard env org projectNumber columnId options =
     await (githubRequest env
              \<lparr>req_url = (''https://api.github.com/projects/columns/'' @ numberToString env columnId @ ''/cards''),
                req_method = Some ''POST'',
                req_headers = [(''Accept'', ''application/vnd.github.inertia-preview+json'')],
                req_body = options\<rparr>) (\<lambda>response.
       zparse env GitHubProjectCardSchema response)"

definition updateOrgProjectCard ::
  "env \<Rightarrow> string \<Rightarrow> rat \<Rightarrow> rat \<Rightarrow> jsval \<Rightarrow> jsval promise" where
  "updateOrgProjectCard env org projectNumber cardId options =
     await (githubRequest env
              \<lparr>req_url = (''https://api.github.com/projects/cards/'' @ numberToString env cardId),
                req_method = Some ''PATCH'',
                req_headers = [(''Accept'', ''application/vnd.github.inertia-preview+json'')],
                req_body = options\<rparr>) (\<lambda>response.
       zparse env GitHubProjectCardSchema response)"

definition deleteOrgProjectCard ::
  "env \<Rightarrow> string \<Rightarrow> rat \<Rightarrow> rat \<Rightarrow> jsval promise" where
  "deleteOrgProjectCard env org projectNumber cardId =
     await (githubRequest env
              \<lparr>req_url = (''https://api.github.com/projects/cards/'' @ numberToString env cardId),
                req_method = Some ''DELETE'',
                req_headers = [(''Accept'', ''application/vnd.github.inertia-preview+json'')],
                req_body = Undefined\<rparr>) (\<lambda>_.
       resolve Undefined)"

definition moveOrgProjectCard ::
  "env \<Rightarrow> string \<Rightarrow> rat \<Rightarrow> rat \<Rightarrow> string \<Rightarrow> rat option \<Rightarrow> jsval promise" where
  "moveOrgProjectCard env org projectNumber cardId position columnId =
     (let body = Obj ([(''position'', Str position)]
                       @ (if truthy (optNum columnId) then [(''column_id'', optNum columnId)] else [])) in
      await (githubRequest env
               \<lparr>req_url = (''https://api.github.com/projects/cards/'' @ numberToString env cardId @ ''/moves''),
                req_method = Some ''POST'',
                req_headers = [(''Accept'', ''application/vnd.github.inertia-preview+json'')],
                req_body = body\<rparr>) (\<lambda>_.
        resolve Undefined))"


section \<open>The tool handler of a card move\<close>

text \<open>
  The body of \<^verbatim>\<open>case "move_project_card"\<close> in the request handler of \<^verbatim>\<open>index.ts\<close>.  The
  handler's \<^verbatim>\<open>catch\<close> clause throws again whatever the body throws (a zod or GitHub
  error under a new message), so it changes which error the caller sees and never
  whether the outcome is one.
\<close>

definition successContent :: "env \<Rightarrow> jsval" where
  "successContent env =
     Obj [(''content'',
           Arr [Obj [(''type'', Str ''text''),
                     (''text'', Str (JSON_stringify2 env (Obj [(''success'', Bool True)])))]])]"

definition move_project_card :: "env \<Rightarrow> jsval \<Rightarrow> jsval promise" where
  "move_project_card env arguments =
     await (zparse env MoveProjectCardSchema arguments) (\<lambda>args.
       case (field args ''owner'', field args ''repo'', field args ''project_number'',
             field args ''card_id'', field args ''position'') of
         (Str owner, Str repo, Num project_number, Num card_id, Str position) \<Rightarrow>
           await (moveProjectCard env owner repo project_number card_id position
                    (case field args ''column_id'' of Num c \<Rightarrow> Some c | _ \<Rightarrow> None)) (\<lambda>_.
             resolve (successContent env))
       | _ \<Rightarrow> reject TypeError)"


section \<open>A scripted transport\<close>

text \<open>
  A test double for the transport: the n-th request dispatched is answered by the n-th
  scripted outcome, and a request beyond the script fails.
\<close>

definition scripted :: "(error + jsval) list \<Rightarrow> request list \<Rightarrow> request \<Rightarrow> error + jsval" where
  "scripted rs history req =
     (if length history < length rs then rs ! length history else Inl (GitHubError 500 Null))"

definition queryString :: "(string \<times> string option) list \<Rightarrow> string list" where
  "queryString params = concat (map (\<lambda>(k, v). case v of None \<Rightarrow> [] | Some x \<Rightarrow> [k @ ''='' @ x]) params)"

definition testEnv :: "(error + jsval) list \<Rightarrow> env" where
  "testEnv rs =
     \<lparr>transport = scripted rs,
      buildUrl = (\<lambda>base params.
        if queryString params = [] then base else base @ ''?'' @ joinWith ''&'' (queryString params)),
      JSON_stringify = (\<lambda>v. ''<json>''),
      JSON_stringify2 = (\<lambda>v. ''<json, indented>''),
      numberToString = (\<lambda>n. ''<number>''),
      isDatetime = (\<lambda>s. True)\<rparr>"

definition start :: world where
  "start = \<lparr>sent = [], console = []\<rparr>"


section \<open>Observing what an operation dispatches\<close>

text \<open>
  An operation is \<open>quiet\<close> when it dispatches nothing; \<open>sends P\<close> says that it only adds
  requests to the log and that each request it adds satisfies \<open>P\<close>, and \<open>sends1 P\<close> that it
  adds at least one.  \<open>carriesPreview\<close> is the content negotiation header of the classic
  endpoints.
\<close>

definition quiet :: "'a promise \<Rightarrow> bool" where
  "quiet m = (\<forall>w. sent (snd (m w)) = sent w)"

definition sends :: "(request \<Rightarrow> bool) \<Rightarrow> 'a promise \<Rightarrow> bool" where
  "sends P m = (\<forall>w. \<exists>xs. sent (snd (m w)) = sent w @ xs \<and> list_all P xs)"

definition sends1 :: "(request \<Rightarrow> bool) \<Rightarrow> 'a promise \<Rightarrow> bool" where
  "sends1 P m = (\<forall>w. \<exists>xs. sent (snd (m w)) = sent w @ xs \<and> list_all P xs \<and> xs \<noteq> [])"

definition carriesPreview :: "request \<Rightarrow> bool" where
  "carriesPreview r =
     (map_of (req_headers r) ''Accept'' = Some ''application/vnd.github.inertia-preview+json'')"


section \<open>Scripted remotes and sample data\<close>







definition itemUpdated :: env where
  "itemUpdated = testEnv
     [Inr (Obj [(''data'', Obj [(''updateProjectV2ItemFieldValue'',
                                 Obj [(''projectV2Item'', Obj [(''id'', Str ''PVTI_1'')])])])])]"

definition moveArguments :: jsval where
  "moveArguments = Obj
     [(''owner'', Str ''acme''), (''repo'', Str ''widgets''), (''project_number'', Num 1),
      (''card_id'', Num 42), (''position'', Str ''top''), (''column_id'', Num 7)]"


section \<open>Properties of the operations\<close>

subsection \<open>Basic laws of asynchronous results\<close>

lemma await_resolve [simp]: "await (resolve x) f = f x"
  by (rule ext) (simp add: await_def resolve_def)

lemma await_reject [simp]: "await (reject e) f = reject e"
  by (rule ext) (simp add: await_def reject_def)

lemma await_settled_Inr [simp]: "await (settled (Inr x)) f = f x"
  by (rule ext) (simp add: await_def settled_def)

lemma await_settled_Inl [simp]: "await (settled (Inl e)) f = reject e"
  by (rule ext) (simp add: await_def settled_def reject_def)

lemma await_console_error [simp]:
  "await (console_error l a) f w = f () (w\<lparr>console := console w @ [ConsoleError l a]\<rparr>)"
  by (simp add: await_def console_error_def)

lemma await_console_warn [simp]:
  "await (console_warn l) f w = f () (w\<lparr>console := console w @ [ConsoleWarn l]\<rparr>)"
  by (simp add: await_def console_warn_def)

lemma await_githubRequest:
  "await (githubRequest env req) f w =
     (case transport env (sent w) req of
        Inl e \<Rightarrow> (Inl e, w\<lparr>sent := sent w @ [req]\<rparr>)
      | Inr x \<Rightarrow> f x (w\<lparr>sent := sent w @ [req]\<rparr>))"
  by (simp add: await_def githubRequest_def split: sum.splits)

subsection \<open>The helper, case by case\<close>

lemma githubGraphQLRequest_failed:
  "transport env (sent w) (graphqlRequest env q v) = Inl e \<Longrightarrow>
   githubGraphQLRequest env q v w = (Inl e, w\<lparr>sent := sent w @ [graphqlRequest env q v]\<rparr>)"
  by (simp add: githubGraphQLRequest_def await_githubRequest)

lemma githubGraphQLRequest_malformed:
  "transport env (sent w) (graphqlRequest env q v) = Inr response \<Longrightarrow>
   parse (isDatetime env) GraphQLResponseSchema response = None \<Longrightarrow>
   githubGraphQLRequest env q v w =
     (Inl (Error (''Failed to parse GraphQL response. Raw response: '' @ responseDetails env response)),
      w\<lparr>sent := sent w @ [graphqlRequest env q v],
        console := console w @ [ConsoleError ''Failed to parse GraphQL response:'' ZodIssues]\<rparr>)"
  by (simp add: githubGraphQLRequest_def await_githubRequest reject_def)

lemma githubGraphQLRequest_sent:
  "sent (snd (githubGraphQLRequest env q v w)) = sent w @ [graphqlRequest env q v]"
  by (simp add: githubGraphQLRequest_def await_githubRequest reject_def resolve_def
      split: sum.splits option.splits jsval.splits list.splits)

subsection \<open>Parsing objects field by field\<close>

text \<open>
  A value accepted by an object schema is an object, and what the parse keeps under a
  key of the shape is the parse of what the input held there.
\<close>

lemma parse_all_Some: "parse_all Some kvs = Some kvs"
  by (induction kvs) auto

lemma parse_record_unknown: "parse dt (ZRecord ZUnknown) (Obj d) = Some (Obj d)"
  by (simp add: parse_all_Some)

lemma parse_data_slot:
  "parse dt (ZNullable (ZRecord ZUnknown)) v = Some d \<longleftrightarrow> (v = Null \<and> d = Null) \<or> (\<exists>kvs. v = Obj kvs \<and> d = v)"
  by (cases v) (auto simp: parse_all_Some)

lemma parse_shape_keys:
  "parse_shape ps kvs = Some out \<Longrightarrow> fst ` set out \<subseteq> fst ` set ps"
proof (induction ps arbitrary: out)
  case Nil
  then show ?case by simp
next
  case (Cons a ps)
  obtain k p where a: "a = (k, p)" by (cases a)
  from Cons.prems a obtain v out' where
    tl: "parse_shape ps kvs = Some out'" and
    out: "out = (if v \<noteq> Undefined \<or> k \<in> fst ` set kvs then (k, v) # out' else out')"
    by (auto split: option.splits)
  from Cons.IH [OF tl] out a show ?case by (auto split: if_splits)
qed

lemma parse_shape_field:
  "parse_shape ps kvs = Some out \<Longrightarrow> distinct (map fst ps) \<Longrightarrow> (k, p) \<in> set ps \<Longrightarrow>
   p (case map_of kvs k of None \<Rightarrow> Undefined | Some v \<Rightarrow> v)
     = Some (case map_of out k of None \<Rightarrow> Undefined | Some v \<Rightarrow> v)"
proof (induction ps arbitrary: out)
  case Nil
  then show ?case by simp
next
  case (Cons a ps)
  obtain k' p' where a: "a = (k', p')" by (cases a)
  from Cons.prems(1) a obtain v out' where
    hd: "p' (case map_of kvs k' of None \<Rightarrow> Undefined | Some v \<Rightarrow> v) = Some v" and
    tl: "parse_shape ps kvs = Some out'" and
    out: "out = (if v \<noteq> Undefined \<or> k' \<in> fst ` set kvs then (k', v) # out' else out')"
    by (auto split: option.splits)
  show ?case
  proof (cases "k = k'")
    case True
    with Cons.prems(2,3) a have p: "p = p'"
      by (auto simp: image_iff)
    from Cons.prems(2) a have "k' \<notin> fst ` set ps" by simp
    with parse_shape_keys [OF tl] have "k' \<notin> fst ` set out'" by blast
    then have none: "map_of out' k' = None" by (simp add: map_of_eq_None_iff)
    from hd out none True p show ?thesis by (auto split: if_splits)
  next
    case False
    with Cons.prems(3) a have mem: "(k, p) \<in> set ps" by auto
    from Cons.prems(2) have "distinct (map fst ps)" by simp
    from Cons.IH [OF tl this mem] out False show ?thesis by (auto split: if_splits)
  qed
qed

lemma parse_object_field:
  assumes "parse dt (ZObject shape) j = Some j'" "distinct (map fst shape)" "(k, s) \<in> set shape"
  shows "parse dt s (field j k) = Some (field j' k)"
proof -
  from assms(1) obtain kvs out where j: "j = Obj kvs" and j': "j' = Obj out"
    and ps: "parse_shape (map (map_prod id (parse dt)) shape) kvs = Some out"
    by (cases j) auto
  have d: "distinct (map fst (map (map_prod id (parse dt)) shape))"
    using assms(2) by (simp add: comp_def)
  have m: "(k, parse dt s) \<in> set (map (map_prod id (parse dt)) shape)"
    using assms(3) by force
  from parse_shape_field [OF ps d m] j j' show ?thesis by (simp add: field_def)
qed

lemma parse_object_Obj:
  "parse dt (ZObject shape) j = Some j' \<Longrightarrow> (\<exists>kvs. j = Obj kvs) \<and> (\<exists>out. j' = Obj out)"
  by (cases j) auto

lemma parse_GraphQLError_message:
  assumes "parse dt GraphQLErrorSchema e = Some e'"
  shows "\<exists>m. field e ''message'' = Str m \<and> field e' ''message'' = Str m"
proof -
  have "parse dt ZString (field e ''message'') = Some (field e' ''message'')"
    using assms unfolding GraphQLErrorSchema_def
    by (rule parse_object_field) simp_all
  then obtain m where "field e ''message'' = Str m" "field e' ''message'' = Str m"
    by (cases "field e ''message''") auto
  then show ?thesis by blast
qed

lemma parse_envelope:
  assumes "parse dt GraphQLResponseSchema response = Some parsed"
  shows "parse dt (ZNullable (ZRecord ZUnknown)) (field response ''data'') = Some (field parsed ''data'')"
    and "parse dt (ZOptional (ZArray GraphQLErrorSchema)) (field response ''errors'')
           = Some (field parsed ''errors'')"
  using assms unfolding GraphQLResponseSchema_def
  by (rule parse_object_field; simp)+

subsection \<open>Populated errors and null data\<close>

lemma githubGraphQLRequest_errors:
  assumes "transport env (sent w) (graphqlRequest env q v) = Inr response"
    and "parse (isDatetime env) GraphQLResponseSchema response = Some parsed"
    and "field parsed ''errors'' = Arr (e # es)"
  shows "githubGraphQLRequest env q v w =
     (Inl (Error (''GraphQL Error: '' @ ToString (numberToString env) (field e ''message''))),
      w\<lparr>sent := sent w @ [graphqlRequest env q v],
        console := console w @ [ConsoleError ''GraphQL Errors:''
                                  (Text (JSON_stringify2 env (Arr (e # es))))]\<rparr>)"
  using assms by (simp add: githubGraphQLRequest_def await_githubRequest reject_def)

lemma parsed_errors_populated:
  assumes "parse dt GraphQLResponseSchema response = Some parsed"
    and "field response ''errors'' = Arr (e # es)"
  shows "\<exists>e' es' m. field parsed ''errors'' = Arr (e' # es') \<and> field e ''message'' = Str m
            \<and> field e' ''message'' = Str m"
proof -
  from parse_envelope(2) [OF assms(1)] assms(2)
  have "map_option Arr (parse_all (parse dt GraphQLErrorSchema) (e # es))
          = Some (field parsed ''errors'')"
    by simp
  then obtain ys where ys: "parse_all (parse dt GraphQLErrorSchema) (e # es) = Some ys"
    and p: "field parsed ''errors'' = Arr ys"
    by (cases "parse_all (parse dt GraphQLErrorSchema) (e # es)") auto
  from ys obtain e' es' where e': "parse dt GraphQLErrorSchema e = Some e'" and "ys = e' # es'"
    by (auto split: option.splits)
  with p have p': "field parsed ''errors'' = Arr (e' # es')" by simp
  from parse_GraphQLError_message [OF e'] p' show ?thesis by blast
qed

lemma githubGraphQLRequest_populated:
  assumes "transport env (sent w) (graphqlRequest env q v) = Inr response"
    and "field response ''errors'' = Arr (e # es)"
  shows "(\<exists>m. fst (githubGraphQLRequest env q v w) = Inl (Error (''GraphQL Error: '' @ m)))
       \<or> (\<exists>d. fst (githubGraphQLRequest env q v w)
                = Inl (Error (''Failed to parse GraphQL response. Raw response: '' @ d)))"
proof (cases "parse (isDatetime env) GraphQLResponseSchema response")
  case None
  from githubGraphQLRequest_malformed [OF assms(1) None] show ?thesis by simp
next
  case (Some parsed)
  from parsed_errors_populated [OF Some assms(2)]
  obtain e' es' where "field parsed ''errors'' = Arr (e' # es')" by blast
  from githubGraphQLRequest_errors [OF assms(1) Some this] show ?thesis by simp
qed

lemma githubGraphQLRequest_null_data:
  assumes "transport env (sent w) (graphqlRequest env q v) = Inr (Obj kvs)"
    and "map_of kvs ''data'' = Some Null"
    and "map_of kvs ''errors'' = None \<or> map_of kvs ''errors'' = Some (Arr [])"
  shows "fst (githubGraphQLRequest env q v w) =
     Inl (Error ''GraphQL query returned null data. Check query validity and permissions.'')"
proof -
  from assms(2) have d: "''data'' \<in> fst ` set kvs"
    by (metis map_of_eq_None_iff option.distinct(1))
  from assms(3) have "parse (isDatetime env) GraphQLResponseSchema (Obj kvs) = Some (Obj [(''data'', Null)])
      \<or> parse (isDatetime env) GraphQLResponseSchema (Obj kvs)
           = Some (Obj [(''data'', Null), (''errors'', Arr [])])"
  proof
    assume n: "map_of kvs ''errors'' = None"
    then have "''errors'' \<notin> fst ` set kvs" by (simp add: map_of_eq_None_iff)
    with n assms(2) d show ?thesis by (simp add: GraphQLResponseSchema_def)
  next
    assume n: "map_of kvs ''errors'' = Some (Arr [])"
    with assms(2) d show ?thesis by (simp add: GraphQLResponseSchema_def)
  qed
  then show ?thesis
  proof
    assume "parse (isDatetime env) GraphQLResponseSchema (Obj kvs) = Some (Obj [(''data'', Null)])"
    with assms(1) show ?thesis
      by (simp add: githubGraphQLRequest_def await_githubRequest reject_def field_def)
  next
    assume "parse (isDatetime env) GraphQLResponseSchema (Obj kvs)
              = Some (Obj [(''data'', Null), (''errors'', Arr [])])"
    with assms(1) show ?thesis
      by (simp add: githubGraphQLRequest_def await_githubRequest reject_def field_def)
  qed
qed

subsection \<open>A response with a populated error list\<close>

text \<open>
  Claim C2, as amended.  A response whose \<^verbatim>\<open>errors\<close> list is a non-empty array never
  yields the success value.  When the response matches the envelope, the failure is an
  \<open>Error\<close> whose message is \<^verbatim>\<open>GraphQL Error: \<close> followed by the message of the first error,
  and the parsed error list is written to the error console; the thrown error itself
  carries the message only.
\<close>

theorem graphql_errors_rejected:
  assumes "transport env (sent w) (graphqlRequest env q v) = Inr response"
    and "field response ''errors'' = Arr (e # es)"
  shows "(\<exists>err. outcome (githubGraphQLRequest env q v) w = Inl err) \<and>
         (\<forall>parsed. parse (isDatetime env) GraphQLResponseSchema response = Some parsed \<longrightarrow>
            (\<exists>m. field e ''message'' = Str m \<and>
                 outcome (githubGraphQLRequest env q v) w = Inl (Error (''GraphQL Error: '' @ m))) \<and>
            console (snd (githubGraphQLRequest env q v w)) =
              console w @ [ConsoleError ''GraphQL Errors:''
                             (Text (JSON_stringify2 env (field parsed ''errors'')))])"
proof (intro conjI allI impI)
  from githubGraphQLRequest_populated [OF assms]
  show "\<exists>err. outcome (githubGraphQLRequest env q v) w = Inl err"
    by (auto simp: outcome_def)
next
  fix parsed
  assume p: "parse (isDatetime env) GraphQLResponseSchema response = Some parsed"
  from parsed_errors_populated [OF p assms(2)]
  obtain e' es' m where pe: "field parsed ''errors'' = Arr (e' # es')"
    and m: "field e ''message'' = Str m" "field e' ''message'' = Str m"
    by blast
  note r = githubGraphQLRequest_errors [OF assms(1) p pe]
  from r m show "\<exists>m. field e ''message'' = Str m \<and>
      outcome (githubGraphQLRequest env q v) w = Inl (Error (''GraphQL Error: '' @ m))"
    by (simp add: outcome_def)
  from r pe show "console (snd (githubGraphQLRequest env q v w)) =
      console w @ [ConsoleError ''GraphQL Errors:''
                     (Text (JSON_stringify2 env (field parsed ''errors'')))]"
    by simp
qed

lemmas run_simps = githubGraphQLRequest_def await_githubRequest testEnv_def scripted_def start_def
  GraphQLResponseSchema_def GraphQLErrorSchema_def field_def reject_def resolve_def outcome_def
  dispatched_def graphqlRequest_def responseDetails_def

text \<open>
  The claim as first stated fails: the message is not the first error's message but that
  message behind a prefix, and two responses whose error lists differ after the first
  entry give the same error, so the list is not kept by it.
\<close>

theorem graphql_errors_counterexample:
  "outcome (githubGraphQLRequest
              (testEnv [Inr (Obj [(''data'', Null),
                                  (''errors'', Arr [Obj [(''message'', Str ''boom'')]])])])
              GetOrgId (Obj [])) start
     = Inl (Error ''GraphQL Error: boom'')
   \<and> ''GraphQL Error: boom'' \<noteq> ''boom''
   \<and> outcome (githubGraphQLRequest
              (testEnv [Inr (Obj [(''data'', Null),
                                  (''errors'', Arr [Obj [(''message'', Str ''boom'')],
                                                    Obj [(''message'', Str ''second'')]])])])
              GetOrgId (Obj [])) start
     = Inl (Error ''GraphQL Error: boom'')"
  by (simp add: run_simps)

theorem graphql_errors_rejected_witness:
  "outcome (githubGraphQLRequest
              (testEnv [Inr (Obj [(''data'', Null),
                                  (''errors'', Arr [Obj [(''message'', Str ''boom'')]])])])
              GetOrgId (Obj [])) start
     = Inl (Error ''GraphQL Error: boom'')
   \<and> console (snd (githubGraphQLRequest
              (testEnv [Inr (Obj [(''data'', Null),
                                  (''errors'', Arr [Obj [(''message'', Str ''boom'')]])])])
              GetOrgId (Obj []) start))
     = [ConsoleError ''GraphQL Errors:'' (Text ''<json, indented>'')]"
  using graphql_errors_rejected
    [where env = "testEnv [Inr (Obj [(''data'', Null),
                                  (''errors'', Arr [Obj [(''message'', Str ''boom'')]])])]"
       and w = start and q = GetOrgId and v = "Obj []"
       and response = "Obj [(''data'', Null), (''errors'', Arr [Obj [(''message'', Str ''boom'')]])]"
       and e = "Obj [(''message'', Str ''boom'')]" and es = "[]"]
  by (simp add: testEnv_def scripted_def start_def field_def GraphQLResponseSchema_def
      GraphQLErrorSchema_def)

subsection \<open>Null data without errors\<close>

text \<open>
  Claim C3.  A response with \<^verbatim>\<open>data: null\<close> and an absent or empty \<^verbatim>\<open>errors\<close> list fails
  with an \<open>Error\<close> of a fixed message of its own, and that outcome differs from the
  outcome of every response whose \<^verbatim>\<open>errors\<close> list is populated.
\<close>

theorem null_data_rejected:
  assumes "transport env (sent w) (graphqlRequest env q v) = Inr (Obj kvs)"
    and "map_of kvs ''data'' = Some Null"
    and "map_of kvs ''errors'' = None \<or> map_of kvs ''errors'' = Some (Arr [])"
  shows "outcome (githubGraphQLRequest env q v) w =
           Inl (Error ''GraphQL query returned null data. Check query validity and permissions.'')
       \<and> (\<forall>(w'::world) q' v' response' e es.
             transport env (sent w') (graphqlRequest env q' v') = Inr response' \<and>
             field response' ''errors'' = Arr (e # es) \<longrightarrow>
             outcome (githubGraphQLRequest env q' v') w' \<noteq> outcome (githubGraphQLRequest env q v) w)"
proof (intro conjI allI impI)
  show n: "outcome (githubGraphQLRequest env q v) w =
      Inl (Error ''GraphQL query returned null data. Check query validity and permissions.'')"
    using githubGraphQLRequest_null_data [OF assms] by (simp add: outcome_def)
  fix w' :: world and q' v' response' e es
  assume "transport env (sent w') (graphqlRequest env q' v') = Inr response' \<and>
          field response' ''errors'' = Arr (e # es)"
  then have "(\<exists>m. fst (githubGraphQLRequest env q' v' w') = Inl (Error (''GraphQL Error: '' @ m)))
       \<or> (\<exists>d. fst (githubGraphQLRequest env q' v' w')
                = Inl (Error (''Failed to parse GraphQL response. Raw response: '' @ d)))"
    using githubGraphQLRequest_populated by blast
  with n show "outcome (githubGraphQLRequest env q' v') w' \<noteq> outcome (githubGraphQLRequest env q v) w"
    by (auto simp: outcome_def)
qed

theorem null_data_rejected_witness:
  "outcome (githubGraphQLRequest (testEnv [Inr (Obj [(''data'', Null)])]) GetOrgId (Obj [])) start =
     Inl (Error ''GraphQL query returned null data. Check query validity and permissions.'')
   \<and> outcome (githubGraphQLRequest
                (testEnv [Inr (Obj [(''data'', Null),
                                    (''errors'', Arr [Obj [(''message'', Str ''boom'')]])])])
                GetOrgId (Obj [])) start
     \<noteq> Inl (Error ''GraphQL query returned null data. Check query validity and permissions.'')"
proof -
  have a: "transport (testEnv [Inr (Obj [(''data'', Null)])]) (sent start)
             (graphqlRequest (testEnv [Inr (Obj [(''data'', Null)])]) GetOrgId (Obj []))
           = Inr (Obj [(''data'', Null)])"
    by (simp add: testEnv_def scripted_def start_def)
  have b: "map_of [(''data'', Null)] ''data'' = Some Null" by simp
  have c: "map_of [(''data'', Null)] ''errors'' = None
             \<or> map_of [(''data'', Null)] ''errors'' = Some (Arr [])" by simp
  show ?thesis
    using null_data_rejected [OF a b c]
    by (simp add: run_simps)
qed

subsection \<open>A response that does not match the envelope\<close>

text \<open>
  Claim C4, as amended.  A response that fails to match the envelope
  \<^verbatim>\<open>{ data: object-or-null, errors?: list }\<close> is never turned into a success value: the
  operation fails with an \<open>Error\<close> whose message is
  \<^verbatim>\<open>Failed to parse GraphQL response. Raw response: \<close> followed by the indented JSON text
  of the response when it is an object or an array, by the response itself when it is a
  string, and by the fixed text \<^verbatim>\<open>Invalid response structure.\<close> otherwise.
\<close>

theorem malformed_envelope_rejected:
  assumes "transport env (sent w) (graphqlRequest env q v) = Inr response"
    and "parse (isDatetime env) GraphQLResponseSchema response = None"
  shows "outcome (githubGraphQLRequest env q v) w =
     Inl (Error (''Failed to parse GraphQL response. Raw response: ''
                   @ (case response of
                        Obj kvs \<Rightarrow> JSON_stringify2 env response
                      | Arr xs \<Rightarrow> JSON_stringify2 env response
                      | Str s \<Rightarrow> s
                      | _ \<Rightarrow> ''Invalid response structure.'')))"
  using githubGraphQLRequest_malformed [OF assms]
  by (simp add: outcome_def responseDetails_def)

theorem malformed_envelope_rejected_witness:
  "outcome (githubGraphQLRequest (testEnv [Inr (Str ''<html>Bad gateway</html>'')]) GetOrgId (Obj []))
     start
   = Inl (Error ''Failed to parse GraphQL response. Raw response: <html>Bad gateway</html>'')"
proof -
  have a: "transport (testEnv [Inr (Str ''<html>Bad gateway</html>'')]) (sent start)
             (graphqlRequest (testEnv [Inr (Str ''<html>Bad gateway</html>'')]) GetOrgId (Obj []))
           = Inr (Str ''<html>Bad gateway</html>'')"
    by (simp add: testEnv_def scripted_def start_def)
  have b: "parse (isDatetime (testEnv [Inr (Str ''<html>Bad gateway</html>'')]))
             GraphQLResponseSchema (Str ''<html>Bad gateway</html>'') = None"
    by (simp add: GraphQLResponseSchema_def)
  show ?thesis
    using malformed_envelope_rejected [OF a b] by simp
qed

text \<open>
  The claim as first stated fails: the responses \<^verbatim>\<open>null\<close> and \<^verbatim>\<open>7\<close> give one and the same
  error, which therefore does not retain the raw response.
\<close>

theorem malformed_envelope_counterexample:
  "outcome (githubGraphQLRequest (testEnv [Inr Null]) GetOrgId (Obj [])) start
     = Inl (Error ''Failed to parse GraphQL response. Raw response: Invalid response structure.'')
   \<and> outcome (githubGraphQLRequest (testEnv [Inr (Num 7)]) GetOrgId (Obj [])) start
     = Inl (Error ''Failed to parse GraphQL response. Raw response: Invalid response structure.'')"
  by (simp add: run_simps)

subsection \<open>Continuations that dispatch nothing\<close>

lemma quiet_resolve [simp]: "quiet (resolve x)"
  by (simp add: quiet_def resolve_def)

lemma quiet_reject [simp]: "quiet (reject e)"
  by (simp add: quiet_def reject_def)

lemma quiet_settled [simp]: "quiet (settled r)"
  by (simp add: quiet_def settled_def)

lemma quiet_zparse [simp]: "quiet (zparse env s v)"
  by (simp add: zparse_def)

lemma quiet_console_warn [simp]: "quiet (console_warn l)"
  by (simp add: quiet_def console_warn_def)

lemma quiet_await: "quiet m \<Longrightarrow> (\<And>x. quiet (f x)) \<Longrightarrow> quiet (await m f)"
  by (auto simp: quiet_def await_def split: prod.splits sum.splits) (metis snd_conv)+

lemma sent_await_quiet:
  "(\<And>x. quiet (f x)) \<Longrightarrow> sent (snd (await m f w)) = sent (snd (m w))"
  by (auto simp: quiet_def await_def split: prod.splits sum.splits)

lemma dispatched_await_quiet:
  "(\<And>x. quiet (f x)) \<Longrightarrow> dispatched (await m f) w = dispatched m w"
  by (simp add: dispatched_def sent_await_quiet)

lemma dispatched_githubGraphQLRequest [simp]:
  "dispatched (githubGraphQLRequest env q v) w = [graphqlRequest env q v]"
  by (simp add: dispatched_def githubGraphQLRequest_sent)



lemma dispatched_eq: "sent (snd (m w)) = sent w @ xs \<Longrightarrow> dispatched m w = xs"
  by (simp add: dispatched_def)

lemma quiet_if [simp]: "quiet (if c then a else b) = (if c then quiet a else quiet b)"
  by simp




lemma sent_graphql_then_quiet:
  "(\<And>x. quiet (f x)) \<Longrightarrow>
   sent (snd (await (githubGraphQLRequest env q v) f w)) = sent w @ [graphqlRequest env q v]"
  by (simp add: sent_await_quiet githubGraphQLRequest_sent)

lemma quiet_parse_path [simp]:
  "quiet (await (settled r) (\<lambda>x. zparse env s x))"
  by (rule quiet_await) simp_all






subsection \<open>Lookups come before the creation mutation\<close>


lemmas eval_simps = await_def githubRequest_def resolve_def reject_def settled_def zparse_def
  console_error_def console_warn_def testEnv_def scripted_def start_def field_def outcome_def
  dispatched_def githubGraphQLRequest_def GraphQLResponseSchema_def GraphQLErrorSchema_def
  responseDetails_def



subsection \<open>The project query and the update mutation\<close>

lemma sent_getProjectV2:
  "sent (snd (getProjectV2 env projectId w))
     = sent w @ [graphqlRequest env GET_PROJECT_V2_QUERY (Obj [(''projectId'', Str projectId)])]"
  unfolding getProjectV2_def
  by (rule sent_graphql_then_quiet) simp

lemma updateProjectV2_nothing:
  "updateProjectV2 env projectId None None None w
     = getProjectV2 env projectId
         (w\<lparr>console := console w @ [ConsoleWarn ''updateProjectV2 called without any fields to update.'']\<rparr>)"
  by (simp add: updateProjectV2_def updateVariables_def)

lemma updateProjectV2_something:
  assumes "title \<noteq> None \<or> readme \<noteq> None \<or> closedFlag \<noteq> None"
  shows "sent (snd (updateProjectV2 env projectId title readme closedFlag w))
     = sent w @ [graphqlRequest env UPDATE_PROJECT_V2_MUTATION
                   (Obj ((''projectId'', Str projectId)
                      # (case title of None \<Rightarrow> [] | Some t \<Rightarrow> [(''title'', Str t)])
                      @ (case readme of None \<Rightarrow> [] | Some r \<Rightarrow> [(''readme'', Str r)])
                      @ (case closedFlag of None \<Rightarrow> [] | Some c \<Rightarrow> [(''closed'', Bool c)])))]"
proof -
  from assms have "\<not> length (updateVariables projectId title readme closedFlag) \<le> 1"
    by (auto simp: updateVariables_def split: option.splits)
  then show ?thesis
    by (simp add: updateProjectV2_def Let_def sent_graphql_then_quiet)
       (simp add: updateVariables_def)
qed

subsection \<open>Updating a project with and without fields\<close>

text \<open>
  Claim C9.  Called with a project id and none of \<^verbatim>\<open>title\<close>, \<^verbatim>\<open>readme\<close> and \<^verbatim>\<open>closed\<close>,
  \<^verbatim>\<open>updateProjectV2\<close> logs a warning and is \<^verbatim>\<open>getProjectV2\<close> on that project: the one
  request dispatched is the project query, and no mutation.  Called with at least one of
  them, it dispatches the update mutation alone, whose variables are the project id
  followed by exactly the fields given, each with its given value.
\<close>

theorem updateProjectV2_dispatch:
  "updateProjectV2 env projectId None None None w
     = getProjectV2 env projectId
         (w\<lparr>console := console w @ [ConsoleWarn ''updateProjectV2 called without any fields to update.'']\<rparr>)
   \<and> dispatched (updateProjectV2 env projectId None None None) w
     = [graphqlRequest env GET_PROJECT_V2_QUERY (Obj [(''projectId'', Str projectId)])]
   \<and> (title \<noteq> None \<or> readme \<noteq> None \<or> closedFlag \<noteq> None \<longrightarrow>
        dispatched (updateProjectV2 env projectId title readme closedFlag) w
          = [graphqlRequest env UPDATE_PROJECT_V2_MUTATION
               (Obj ((''projectId'', Str projectId)
                  # (case title of None \<Rightarrow> [] | Some t \<Rightarrow> [(''title'', Str t)])
                  @ (case readme of None \<Rightarrow> [] | Some r \<Rightarrow> [(''readme'', Str r)])
                  @ (case closedFlag of None \<Rightarrow> [] | Some c \<Rightarrow> [(''closed'', Bool c)])))])"
proof (intro conjI impI)
  show "updateProjectV2 env projectId None None None w
     = getProjectV2 env projectId
         (w\<lparr>console := console w @ [ConsoleWarn ''updateProjectV2 called without any fields to update.'']\<rparr>)"
    by (rule updateProjectV2_nothing)
  show "dispatched (updateProjectV2 env projectId None None None) w
     = [graphqlRequest env GET_PROJECT_V2_QUERY (Obj [(''projectId'', Str projectId)])]"
    by (rule dispatched_eq) (simp add: updateProjectV2_nothing sent_getProjectV2)
next
  assume "title \<noteq> None \<or> readme \<noteq> None \<or> closedFlag \<noteq> None"
  from updateProjectV2_something [OF this]
  show "dispatched (updateProjectV2 env projectId title readme closedFlag) w
          = [graphqlRequest env UPDATE_PROJECT_V2_MUTATION
               (Obj ((''projectId'', Str projectId)
                  # (case title of None \<Rightarrow> [] | Some t \<Rightarrow> [(''title'', Str t)])
                  @ (case readme of None \<Rightarrow> [] | Some r \<Rightarrow> [(''readme'', Str r)])
                  @ (case closedFlag of None \<Rightarrow> [] | Some c \<Rightarrow> [(''closed'', Bool c)])))]"
    by (rule dispatched_eq)
qed

theorem updateProjectV2_dispatch_witness:
  "dispatched (updateProjectV2 (testEnv []) ''PVT_1'' None None (Some True)) start
     = [graphqlRequest (testEnv []) UPDATE_PROJECT_V2_MUTATION
          (Obj [(''projectId'', Str ''PVT_1''), (''closed'', Bool True)])]
   \<and> dispatched (updateProjectV2 (testEnv []) ''PVT_1'' (Some ''Roadmap'') (Some []) None) start
     = [graphqlRequest (testEnv []) UPDATE_PROJECT_V2_MUTATION
          (Obj [(''projectId'', Str ''PVT_1''), (''title'', Str ''Roadmap''), (''readme'', Str [])])]
   \<and> dispatched (updateProjectV2 (testEnv []) ''PVT_1'' None None None) start
     = [graphqlRequest (testEnv []) GET_PROJECT_V2_QUERY (Obj [(''projectId'', Str ''PVT_1'')])]"
  using updateProjectV2_dispatch [of "testEnv []" "''PVT_1''" start None None "Some True"]
    updateProjectV2_dispatch [of "testEnv []" "''PVT_1''" start "Some ''Roadmap''" "Some []" None]
  by simp


subsection \<open>Finding a classic project by its number\<close>




subsection \<open>Requests that all satisfy a predicate\<close>

lemma sends1_sends: "sends1 P m \<Longrightarrow> sends P m"
  unfolding sends1_def sends_def by blast

lemma quiet_sends: "quiet m \<Longrightarrow> sends P m"
  by (simp add: quiet_def sends_def)

lemma sends_await:
  assumes "sends P m" "\<And>x. sends P (f x)"
  shows "sends P (await m f)"
  unfolding sends_def
proof
  fix w
  from assms(1) obtain xs where xs: "sent (snd (m w)) = sent w @ xs" "list_all P xs"
    unfolding sends_def by blast
  show "\<exists>zs. sent (snd (await m f w)) = sent w @ zs \<and> list_all P zs"
  proof (cases "m w")
    case (Pair r w')
    show ?thesis
    proof (cases r)
      case (Inl e)
      with Pair xs show ?thesis by (auto simp: await_def)
    next
      case (Inr x)
      from assms(2) [of x] obtain ys where "sent (snd (f x w')) = sent w' @ ys" "list_all P ys"
        unfolding sends_def by blast
      with Pair Inr xs show ?thesis by (auto simp: await_def)
    qed
  qed
qed

lemma sends1_await:
  assumes "sends1 P m" "\<And>x. sends P (f x)"
  shows "sends1 P (await m f)"
  unfolding sends1_def
proof
  fix w
  from assms(1) obtain xs where xs: "sent (snd (m w)) = sent w @ xs" "list_all P xs" "xs \<noteq> []"
    unfolding sends1_def by blast
  show "\<exists>zs. sent (snd (await m f w)) = sent w @ zs \<and> list_all P zs \<and> zs \<noteq> []"
  proof (cases "m w")
    case (Pair r w')
    show ?thesis
    proof (cases r)
      case (Inl e)
      with Pair xs show ?thesis by (auto simp: await_def)
    next
      case (Inr x)
      from assms(2) [of x] obtain ys where "sent (snd (f x w')) = sent w' @ ys" "list_all P ys"
        unfolding sends_def by blast
      with Pair Inr xs show ?thesis by (auto simp: await_def)
    qed
  qed
qed

lemma sends1_githubRequest: "P req \<Longrightarrow> sends1 P (githubRequest env req)"
  by (simp add: sends1_def githubRequest_def)

lemma sends1_request_then_quiet:
  "P req \<Longrightarrow> (\<And>x. quiet (f x)) \<Longrightarrow> sends1 P (await (githubRequest env req) f)"
  by (intro sends1_await sends1_githubRequest quiet_sends)

lemma sends_request_then_quiet:
  "P req \<Longrightarrow> (\<And>x. quiet (f x)) \<Longrightarrow> sends P (await (githubRequest env req) f)"
  by (intro sends1_sends sends1_request_then_quiet)

lemma sends1_dispatched:
  "sends1 P m \<Longrightarrow> dispatched m w \<noteq> [] \<and> (\<forall>r \<in> set (dispatched m w). P r)"
  unfolding sends1_def dispatched_def
  by (metis append_eq_conv_conj list_all_iff)

lemma preview_listProjects: "sends1 carriesPreview (listProjects env owner repo state per_page page)"
  unfolding listProjects_def Let_def
  by (rule sends1_request_then_quiet) (simp_all add: carriesPreview_def)

lemma preview_createProject: "sends1 carriesPreview (createProject env owner repo options)"
  unfolding createProject_def Let_def
  by (rule sends1_request_then_quiet) (simp_all add: carriesPreview_def)

lemma preview_getProject: "sends1 carriesPreview (getProject env owner repo projectNumber)"
  unfolding getProject_def
proof (rule sends1_await [OF preview_listProjects])
  fix projects
  show "sends carriesPreview
          (case findProject projects projectNumber of
             None \<Rightarrow> reject (Error (XMSG))
           | Some project \<Rightarrow>
               await (githubRequest env
                        \<lparr>req_url = ToString (numberToString env) (field project ''url''),
                           req_method = None,
                           req_headers = [(''Accept'', ''application/vnd.github.inertia-preview+json'')],
                           req_body = Undefined\<rparr>)
                 (zparse env GitHubProjectSchema))" for XMSG
    by (cases "findProject projects projectNumber")
       (simp_all add: quiet_sends sends_request_then_quiet carriesPreview_def)
qed

lemma preview_updateProject: "sends1 carriesPreview (updateProject env owner repo projectNumber options)"
  unfolding updateProject_def Let_def
  by (rule sends1_await [OF preview_getProject])
     (auto intro!: sends_request_then_quiet simp: carriesPreview_def)

lemma preview_deleteProject: "sends1 carriesPreview (deleteProject env owner repo projectNumber)"
  unfolding deleteProject_def Let_def
  by (rule sends1_await [OF preview_getProject])
     (auto intro!: sends_request_then_quiet simp: carriesPreview_def)

lemma preview_listProjectColumns: "sends1 carriesPreview (listProjectColumns env owner repo projectNumber per_page page)"
  unfolding listProjectColumns_def Let_def
  by (rule sends1_await [OF preview_getProject])
     (auto intro!: sends_request_then_quiet simp: carriesPreview_def)

lemma preview_createProjectColumn: "sends1 carriesPreview (createProjectColumn env owner repo projectNumber options)"
  unfolding createProjectColumn_def Let_def
  by (rule sends1_await [OF preview_getProject])
     (auto intro!: sends_request_then_quiet simp: carriesPreview_def)

lemma preview_updateProjectColumn: "sends1 carriesPreview (updateProjectColumn env owner repo projectNumber columnId options)"
  unfolding updateProjectColumn_def Let_def
  by (rule sends1_request_then_quiet) (simp_all add: carriesPreview_def)

lemma preview_deleteProjectColumn: "sends1 carriesPreview (deleteProjectColumn env owner repo projectNumber columnId)"
  unfolding deleteProjectColumn_def Let_def
  by (rule sends1_request_then_quiet) (simp_all add: carriesPreview_def)

lemma preview_listProjectCards: "sends1 carriesPreview (listProjectCards env owner repo projectNumber columnId archived_state per_page page)"
  unfolding listProjectCards_def Let_def
  by (rule sends1_request_then_quiet) (simp_all add: carriesPreview_def)

lemma preview_createProjectCard: "sends1 carriesPreview (createProjectCard env owner repo projectNumber columnId options)"
  unfolding createProjectCard_def Let_def
  by (rule sends1_request_then_quiet) (simp_all add: carriesPreview_def)

lemma preview_updateProjectCard: "sends1 carriesPreview (updateProjectCard env owner repo projectNumber cardId options)"
  unfolding updateProjectCard_def Let_def
  by (rule sends1_request_then_quiet) (simp_all add: carriesPreview_def)

lemma preview_deleteProjectCard: "sends1 carriesPreview (deleteProjectCard env owner repo projectNumber cardId)"
  unfolding deleteProjectCard_def Let_def
  by (rule sends1_request_then_quiet) (simp_all add: carriesPreview_def)

lemma preview_moveProjectCard: "sends1 carriesPreview (moveProjectCard env owner repo projectNumber cardId position targetColumn)"
  unfolding moveProjectCard_def Let_def
  by (rule sends1_request_then_quiet) (simp_all add: carriesPreview_def)

lemma preview_listOrgProjects: "sends1 carriesPreview (listOrgProjects env org state per_page page)"
  unfolding listOrgProjects_def Let_def
  by (rule sends1_request_then_quiet) (simp_all add: carriesPreview_def)

lemma preview_createOrgProject: "sends1 carriesPreview (createOrgProject env org options)"
  unfolding createOrgProject_def Let_def
  by (rule sends1_request_then_quiet) (simp_all add: carriesPreview_def)

lemma preview_getOrgProject: "sends1 carriesPreview (getOrgProject env org projectNumber)"
  unfolding getOrgProject_def
proof (rule sends1_await [OF preview_listOrgProjects])
  fix projects
  show "sends carriesPreview
          (case findProject projects projectNumber of
             None \<Rightarrow> reject (Error (XMSG))
           | Some project \<Rightarrow>
               await (githubRequest env
                        \<lparr>req_url = ToString (numberToString env) (field project ''url''),
                           req_method = None,
                           req_headers = [(''Accept'', ''application/vnd.github.inertia-preview+json'')],
                           req_body = Undefined\<rparr>)
                 (zparse env GitHubProjectSchema))" for XMSG
    by (cases "findProject projects projectNumber")
       (simp_all add: quiet_sends sends_request_then_quiet carriesPreview_def)
qed

lemma preview_updateOrgProject: "sends1 carriesPreview (updateOrgProject env org projectNumber options)"
  unfolding updateOrgProject_def Let_def
  by (rule sends1_await [OF preview_getOrgProject])
     (auto intro!: sends_request_then_quiet simp: carriesPreview_def)

lemma preview_deleteOrgProject: "sends1 carriesPreview (deleteOrgProject env org projectNumber)"
  unfolding deleteOrgProject_def Let_def
  by (rule sends1_await [OF preview_getOrgProject])
     (auto intro!: sends_request_then_quiet simp: carriesPreview_def)

lemma preview_listOrgProjectColumns: "sends1 carriesPreview (listOrgProjectColumns env org projectNumber per_page page)"
  unfolding listOrgProjectColumns_def Let_def
  by (rule sends1_await [OF preview_getOrgProject])
     (auto intro!: sends_request_then_quiet simp: carriesPreview_def)

lemma preview_createOrgProjectColumn: "sends1 carriesPreview (createOrgProjectColumn env org projectNumber options)"
  unfolding createOrgProjectColumn_def Let_def
  by (rule sends1_await [OF preview_getOrgProject])
     (auto intro!: sends_request_then_quiet simp: carriesPreview_def)

lemma preview_updateOrgProjectColumn: "sends1 carriesPreview (updateOrgProjectColumn env org projectNumber columnId options)"
  unfolding updateOrgProjectColumn_def Let_def
  by (rule sends1_request_then_quiet) (simp_all add: carriesPreview_def)

lemma preview_deleteOrgProjectColumn: "sends1 carriesPreview (deleteOrgProjectColumn env org projectNumber columnId)"
  unfolding deleteOrgProjectColumn_def Let_def
  by (rule sends1_request_then_quiet) (simp_all add: carriesPreview_def)

lemma preview_listOrgProjectCards: "sends1 carriesPreview (listOrgProjectCards env org projectNumber columnId archived_state per_page page)"
  unfolding listOrgProjectCards_def Let_def
  by (rule sends1_request_then_quiet) (simp_all add: carriesPreview_def)

lemma preview_createOrgProjectCard: "sends1 carriesPreview (createOrgProjectCard env org projectNumber columnId options)"
  unfolding createOrgProjectCard_def Let_def
  by (rule sends1_request_then_quiet) (simp_all add: carriesPreview_def)

lemma preview_updateOrgProjectCard: "sends1 carriesPreview (updateOrgProjectCard env org projectNumber cardId options)"
  unfolding updateOrgProjectCard_def Let_def
  by (rule sends1_request_then_quiet) (simp_all add: carriesPreview_def)

lemma preview_deleteOrgProjectCard: "sends1 carriesPreview (deleteOrgProjectCard env org projectNumber cardId)"
  unfolding deleteOrgProjectCard_def Let_def
  by (rule sends1_request_then_quiet) (simp_all add: carriesPreview_def)

lemma preview_moveOrgProjectCard: "sends1 carriesPreview (moveOrgProjectCard env org projectNumber cardId position targetColumn)"
  unfolding moveOrgProjectCard_def Let_def
  by (rule sends1_request_then_quiet) (simp_all add: carriesPreview_def)

subsection \<open>The preview header of the classic operations\<close>

text \<open>
  Claim C8.  Each of the twenty-eight classic project, column and card operations, for
  repositories and for organizations, dispatches at least one request, and every request
  it dispatches carries the header
  \<^verbatim>\<open>Accept: application/vnd.github.inertia-preview+json\<close>.
\<close>

theorem classic_requests_carry_preview_header:
  "\<forall>m \<in> {listProjects env owner repo state per_page page,
        createProject env owner repo options,
        getProject env owner repo projectNumber,
        updateProject env owner repo projectNumber options,
        deleteProject env owner repo projectNumber,
        listProjectColumns env owner repo projectNumber per_page page,
        createProjectColumn env owner repo projectNumber options,
        updateProjectColumn env owner repo projectNumber columnId options,
        deleteProjectColumn env owner repo projectNumber columnId,
        listProjectCards env owner repo projectNumber columnId archived_state per_page page,
        createProjectCard env owner repo projectNumber columnId options,
        updateProjectCard env owner repo projectNumber cardId options,
        deleteProjectCard env owner repo projectNumber cardId,
        moveProjectCard env owner repo projectNumber cardId position targetColumn,
        listOrgProjects env org state per_page page,
        createOrgProject env org options,
        getOrgProject env org projectNumber,
        updateOrgProject env org projectNumber options,
        deleteOrgProject env org projectNumber,
        listOrgProjectColumns env org projectNumber per_page page,
        createOrgProjectColumn env org projectNumber options,
        updateOrgProjectColumn env org projectNumber columnId options,
        deleteOrgProjectColumn env org projectNumber columnId,
        listOrgProjectCards env org projectNumber columnId archived_state per_page page,
        createOrgProjectCard env org projectNumber columnId options,
        updateOrgProjectCard env org projectNumber cardId options,
        deleteOrgProjectCard env org projectNumber cardId,
        moveOrgProjectCard env org projectNumber cardId position targetColumn}.
     dispatched m w \<noteq> [] \<and>
     (\<forall>r \<in> set (dispatched m w).
        map_of (req_headers r) ''Accept'' = Some ''application/vnd.github.inertia-preview+json'')"
  using preview_listProjects [THEN sends1_dispatched, of env owner repo state per_page page w]
    preview_createProject [THEN sends1_dispatched, of env owner repo options w]
    preview_getProject [THEN sends1_dispatched, of env owner repo projectNumber w]
    preview_updateProject [THEN sends1_dispatched, of env owner repo projectNumber options w]
    preview_deleteProject [THEN sends1_dispatched, of env owner repo projectNumber w]
    preview_listProjectColumns [THEN sends1_dispatched, of env owner repo projectNumber per_page page w]
    preview_createProjectColumn [THEN sends1_dispatched, of env owner repo projectNumber options w]
    preview_updateProjectColumn [THEN sends1_dispatched, of env owner repo projectNumber columnId options w]
    preview_deleteProjectColumn [THEN sends1_dispatched, of env owner repo projectNumber columnId w]
    preview_listProjectCards [THEN sends1_dispatched, of env owner repo projectNumber columnId archived_state per_page page w]
    preview_createProjectCard [THEN sends1_dispatched, of env owner repo projectNumber columnId options w]
    preview_updateProjectCard [THEN sends1_dispatched, of env owner repo projectNumber cardId options w]
    preview_deleteProjectCard [THEN sends1_dispatched, of env owner repo projectNumber cardId w]
    preview_moveProjectCard [THEN sends1_dispatched, of env owner repo projectNumber cardId position targetColumn w]
    preview_listOrgProjects [THEN sends1_dispatched, of env org state per_page page w]
    preview_createOrgProject [THEN sends1_dispatched, of env org options w]
    preview_getOrgProject [THEN sends1_dispatched, of env org projectNumber w]
    preview_updateOrgProject [THEN sends1_dispatched, of env org projectNumber options w]
    preview_deleteOrgProject [THEN sends1_dispatched, of env org projectNumber w]
    preview_listOrgProjectColumns [THEN sends1_dispatched, of env org projectNumber per_page page w]
    preview_createOrgProjectColumn [THEN sends1_dispatched, of env org projectNumber options w]
    preview_updateOrgProjectColumn [THEN sends1_dispatched, of env org projectNumber columnId options w]
    preview_deleteOrgProjectColumn [THEN sends1_dispatched, of env org projectNumber columnId w]
    preview_listOrgProjectCards [THEN sends1_dispatched, of env org projectNumber columnId archived_state per_page page w]
    preview_createOrgProjectCard [THEN sends1_dispatched, of env org projectNumber columnId options w]
    preview_updateOrgProjectCard [THEN sends1_dispatched, of env org projectNumber cardId options w]
    preview_deleteOrgProjectCard [THEN sends1_dispatched, of env org projectNumber cardId w]
    preview_moveOrgProjectCard [THEN sends1_dispatched, of env org projectNumber cardId position targetColumn w]
  by (simp add: carriesPreview_def)

theorem classic_requests_carry_preview_header_witness:
  "dispatched (moveOrgProjectCard (testEnv [Inr Null]) ''acme'' 1 42 ''top'' (Some 7)) start
     = [\<lparr>req_url = ''https://api.github.com/projects/cards/<number>/moves'',
         req_method = Some ''POST'',
         req_headers = [(''Accept'', ''application/vnd.github.inertia-preview+json'')],
         req_body = Obj [(''position'', Str ''top''), (''column_id'', Num 7)]\<rparr>]
   \<and> list_all carriesPreview
         (dispatched (moveOrgProjectCard (testEnv [Inr Null]) ''acme'' 1 42 ''top'' (Some 7)) start)
   \<and> dispatched (listProjects (testEnv [Inr (Arr [])]) ''acme'' ''widgets''
                   (Some ''open'') None (Some 2)) start \<noteq> []
   \<and> list_all carriesPreview
         (dispatched (listProjects (testEnv [Inr (Arr [])]) ''acme'' ''widgets''
                        (Some ''open'') None (Some 2)) start)"
proof -
  have a: "dispatched (moveOrgProjectCard (testEnv [Inr Null]) ''acme'' 1 42 ''top'' (Some 7)) start
     = [\<lparr>req_url = ''https://api.github.com/projects/cards/<number>/moves'',
         req_method = Some ''POST'',
         req_headers = [(''Accept'', ''application/vnd.github.inertia-preview+json'')],
         req_body = Obj [(''position'', Str ''top''), (''column_id'', Num 7)]\<rparr>]"
    by (simp add: moveOrgProjectCard_def optNum_def eval_simps)
  show ?thesis
    using a
      classic_requests_carry_preview_header
        [where env = "testEnv [Inr Null]" and w = start and org = "''acme''"
           and owner = "''acme''" and repo = "''widgets''" and state = None and per_page = None
           and page = None and options = Null and projectNumber = 1 and columnId = 3
           and archived_state = None and cardId = 42 and position = "''top''"
           and targetColumn = "Some 7"]
      classic_requests_carry_preview_header
        [where env = "testEnv [Inr (Arr [])]" and w = start and org = "''acme''"
           and owner = "''acme''" and repo = "''widgets''" and state = "Some ''open''"
           and per_page = None and page = "Some 2" and options = Null and projectNumber = 1
           and columnId = 3 and archived_state = None and cardId = 42 and position = "''top''"
           and targetColumn = "Some 7"]
    by (simp add: list_all_iff carriesPreview_def)
qed

subsection \<open>Results of successful operations\<close>

lemma outcome_await_Inr:
  assumes "outcome (await m f) w = Inr v"
  obtains x w' where "m w = (Inr x, w')" "outcome (f x) w' = Inr v"
  using assms by (cases "m w") (auto simp: outcome_def await_def split: sum.splits)

lemma githubGraphQLRequest_Inr:
  assumes "githubGraphQLRequest env q v w = (Inr d, w')"
  shows "\<exists>response kvs. transport env (sent w) (graphqlRequest env q v) = Inr response
           \<and> field response ''data'' = d \<and> d = Obj kvs"
proof (cases "transport env (sent w) (graphqlRequest env q v)")
  case (Inl e)
  from githubGraphQLRequest_failed [OF Inl] assms show ?thesis by simp
next
  case (Inr response)
  show ?thesis
  proof (cases "parse (isDatetime env) GraphQLResponseSchema response")
    case None
    from githubGraphQLRequest_malformed [OF Inr None] assms show ?thesis by simp
  next
    case (Some parsed)
    from assms Inr Some have d: "field parsed ''data'' = d" and nn: "d \<noteq> Null"
      by (auto simp: githubGraphQLRequest_def await_githubRequest reject_def resolve_def
          split: jsval.splits list.splits if_splits)
    have "(field response ''data'' = Null \<and> field parsed ''data'' = Null)
        \<or> (\<exists>kvs. field response ''data'' = Obj kvs \<and> field parsed ''data'' = field response ''data'')"
      using parse_envelope(1) [OF Some] by (simp only: parse_data_slot)
    with d nn obtain kvs where "field response ''data'' = Obj kvs" "d = Obj kvs"
      by auto
    with Inr show ?thesis by simp
  qed
qed

subsection \<open>Output validation of the listings\<close>

text \<open>
  Claim C5 asks that every value an operation returns has passed the operation's output
  schema, for the field listing in particular.  The field listing returns the \<^verbatim>\<open>fields\<close>
  value of the response as it is: here a body whose \<^verbatim>\<open>nodes\<close> is a string and whose
  \<^verbatim>\<open>totalCount\<close> is a string is returned to the caller although
  \<open>ProjectV2FieldConnectionSchema\<close> refuses it, while the item listing fails closed on
  the same body.
\<close>

theorem listProjectFieldsV2_returns_unvalidated:
  "outcome (listProjectFieldsV2
              (testEnv [Inr (Obj [(''data'', Obj [(''node'', Obj [(''fields'',
                   Obj [(''nodes'', Str ''oops''), (''totalCount'', Str ''many'')])])])])])
              ''PVT_1'' None None) start
     = Inr (Obj [(''nodes'', Str ''oops''), (''totalCount'', Str ''many'')])
   \<and> parse (isDatetime (testEnv [])) ProjectV2FieldConnectionSchema
         (Obj [(''nodes'', Str ''oops''), (''totalCount'', Str ''many'')]) = None
   \<and> outcome (listProjectItemsV2
              (testEnv [Inr (Obj [(''data'', Obj [(''node'', Obj [(''items'',
                   Obj [(''nodes'', Str ''oops''), (''totalCount'', Str ''many'')])])])])])
              ''PVT_1'' None None) start
     = Inl ZodError"
  by (simp add: listProjectFieldsV2_def listProjectItemsV2_def eval_simps
      ProjectV2FieldConnectionSchema_def ProjectV2ItemConnectionSchema_def PageInfoSchema_def)

theorem listProjectFieldsV2_returns_unvalidated_witness:
  "outcome (listProjectFieldsV2
              (testEnv [Inr (Obj [(''data'', Obj [(''node'', Obj [(''fields'',
                   Obj [(''nodes'', Str ''oops''), (''totalCount'', Str ''many'')])])])])])
              ''PVT_1'' None None) start
     = Inr (Obj [(''nodes'', Str ''oops''), (''totalCount'', Str ''many'')])"
  using listProjectFieldsV2_returns_unvalidated by simp

subsection \<open>Default page size and the connection shape\<close>

text \<open>
  Claim C7 asks that each of the four listings supplies a default \<^verbatim>\<open>first\<close> and returns
  the connection shape.  The default is supplied by all four (\<open>listing_default_first\<close>)
  and the shape holds for the organization, repository and item listings
  (\<open>listing_connection_shape\<close>); the field listing, called without \<^verbatim>\<open>first\<close>, dispatches
  \<^verbatim>\<open>first = 30\<close> and then returns whatever the response holds under \<^verbatim>\<open>fields\<close>, here a
  string.
\<close>

theorem listProjectFieldsV2_shape_not_enforced:
  "dispatched (listProjectFieldsV2
                 (testEnv [Inr (Obj [(''data'', Obj [(''node'', Obj [(''fields'', Str ''unexpected'')])])])])
                 ''PVT_1'' None None) start
     = [graphqlRequest
          (testEnv [Inr (Obj [(''data'', Obj [(''node'', Obj [(''fields'', Str ''unexpected'')])])])])
          LIST_PROJECT_FIELDS_QUERY
          (Obj [(''projectId'', Str ''PVT_1''), (''first'', Num 30), (''after'', Undefined)])]
   \<and> outcome (listProjectFieldsV2
                 (testEnv [Inr (Obj [(''data'', Obj [(''node'', Obj [(''fields'', Str ''unexpected'')])])])])
                 ''PVT_1'' None None) start
     = Inr (Str ''unexpected'')"
  by (simp add: listProjectFieldsV2_def eval_simps optStr_def graphqlRequest_def)

theorem listProjectFieldsV2_shape_not_enforced_witness:
  "outcome (listProjectFieldsV2
              (testEnv [Inr (Obj [(''data'', Obj [(''node'', Obj [(''fields'', Str ''unexpected'')])])])])
              ''PVT_1'' None None) start
     = Inr (Str ''unexpected'')"
  using listProjectFieldsV2_shape_not_enforced by simp

lemma quiet_warn_then [simp]: "(\<And>x. quiet (f x)) \<Longrightarrow> quiet (await (console_warn l) f)"
  by (rule quiet_await) simp_all

lemma listing_default_first:
  "dispatched (listOrgProjectsV2 env orgLogin None after) w
     = [graphqlRequest env LIST_ORG_PROJECTS_V2_QUERY
          (Obj [(''orgLogin'', Str orgLogin), (''first'', Num 30), (''after'', optStr after)])]"
  "dispatched (listRepoProjectsV2 env ownerLogin repoName None after) w
     = [graphqlRequest env LIST_REPO_PROJECTS_V2_QUERY
          (Obj [(''ownerLogin'', Str ownerLogin), (''repoName'', Str repoName),
                (''first'', Num 30), (''after'', optStr after)])]"
  "dispatched (listProjectFieldsV2 env projectId None after) w
     = [graphqlRequest env LIST_PROJECT_FIELDS_QUERY
          (Obj [(''projectId'', Str projectId), (''first'', Num 30), (''after'', optStr after)])]"
  "dispatched (listProjectItemsV2 env projectId None after) w
     = [graphqlRequest env LIST_PROJECT_ITEMS_QUERY
          (Obj [(''projectId'', Str projectId), (''first'', Num 30), (''after'', optStr after)])]"
  by (rule dispatched_eq,
      simp add: listOrgProjectsV2_def listRepoProjectsV2_def listProjectFieldsV2_def
        listProjectItemsV2_def sent_graphql_then_quiet)+

lemma outcome_zparse:
  "outcome (zparse env s raw) w = Inr v \<Longrightarrow> parse (isDatetime env) s raw = Some v"
  by (auto simp: outcome_def zparse_def settled_def split: option.splits)

lemma outcome_parse_path:
  assumes "outcome (await (settled r) (\<lambda>x. zparse env s x)) w = Inr v"
  shows "\<exists>raw. parse (isDatetime env) s raw = Some v"
proof (cases r)
  case (Inl e)
  with assms show ?thesis by (simp add: outcome_def reject_def)
next
  case (Inr raw)
  with assms have "outcome (zparse env s raw) w = Inr v" by simp
  then show ?thesis by (blast dest: outcome_zparse)
qed

lemma listing_validated:
  "outcome (listOrgProjectsV2 env orgLogin first after) w = Inr v \<Longrightarrow>
     \<exists>raw. parse (isDatetime env) ProjectV2ConnectionSchema raw = Some v"
  "outcome (listRepoProjectsV2 env ownerLogin repoName first after) w = Inr v \<Longrightarrow>
     \<exists>raw. parse (isDatetime env) ProjectV2ConnectionSchema raw = Some v"
  "outcome (listProjectItemsV2 env projectId first after) w = Inr v \<Longrightarrow>
     \<exists>raw. parse (isDatetime env) ProjectV2ItemConnectionSchema raw = Some v"
proof -
  show "outcome (listOrgProjectsV2 env orgLogin first after) w = Inr v \<Longrightarrow>
     \<exists>raw. parse (isDatetime env) ProjectV2ConnectionSchema raw = Some v"
    unfolding listOrgProjectsV2_def
    by (erule outcome_await_Inr) (rule outcome_parse_path)
  show "outcome (listRepoProjectsV2 env ownerLogin repoName first after) w = Inr v \<Longrightarrow>
     \<exists>raw. parse (isDatetime env) ProjectV2ConnectionSchema raw = Some v"
    unfolding listRepoProjectsV2_def
    by (erule outcome_await_Inr) (rule outcome_parse_path)
  show "outcome (listProjectItemsV2 env projectId first after) w = Inr v \<Longrightarrow>
     \<exists>raw. parse (isDatetime env) ProjectV2ItemConnectionSchema raw = Some v"
    unfolding listProjectItemsV2_def
    by (erule outcome_await_Inr)
       (auto split: if_splits simp: outcome_def reject_def dest: outcome_zparse [unfolded outcome_def])
qed

lemma parse_results:
  "parse dt ZNumber x = Some y \<Longrightarrow> \<exists>n. y = Num n"
  "parse dt ZBoolean x = Some y \<Longrightarrow> \<exists>b. y = Bool b"
  "parse dt (ZNullable ZString) x = Some y \<Longrightarrow> y = Null \<or> (\<exists>c. y = Str c)"
  "parse dt (ZNullable (ZArray s)) x = Some y \<Longrightarrow> y = Null \<or> (\<exists>xs. y = Arr xs)"
  by (cases x; auto split: if_splits)+

lemma connection_shape:
  assumes "parse dt (ZObject [(''nodes'', ZNullable (ZArray s)), (''pageInfo'', PageInfoSchema),
                              (''totalCount'', ZNumber)]) raw = Some v"
  shows "(field v ''nodes'' = Null \<or> (\<exists>xs. field v ''nodes'' = Arr xs))
       \<and> (field (field v ''pageInfo'') ''endCursor'' = Null
            \<or> (\<exists>c. field (field v ''pageInfo'') ''endCursor'' = Str c))
       \<and> (\<exists>b. field (field v ''pageInfo'') ''hasNextPage'' = Bool b)
       \<and> (\<exists>n. field v ''totalCount'' = Num n)"
proof -
  have n: "parse dt (ZNullable (ZArray s)) (field raw ''nodes'') = Some (field v ''nodes'')"
    by (rule parse_object_field [OF assms]) simp_all
  have p: "parse dt PageInfoSchema (field raw ''pageInfo'') = Some (field v ''pageInfo'')"
    by (rule parse_object_field [OF assms]) simp_all
  have t: "parse dt ZNumber (field raw ''totalCount'') = Some (field v ''totalCount'')"
    by (rule parse_object_field [OF assms]) simp_all
  have e: "parse dt (ZNullable ZString) (field (field raw ''pageInfo'') ''endCursor'')
             = Some (field (field v ''pageInfo'') ''endCursor'')"
    by (rule parse_object_field [OF p [unfolded PageInfoSchema_def]]) simp_all
  have h: "parse dt ZBoolean (field (field raw ''pageInfo'') ''hasNextPage'')
             = Some (field (field v ''pageInfo'') ''hasNextPage'')"
    by (rule parse_object_field [OF p [unfolded PageInfoSchema_def]]) simp_all
  from parse_results(4) [OF n] parse_results(3) [OF e] parse_results(2) [OF h]
    parse_results(1) [OF t]
  show ?thesis by blast
qed

lemma listing_connection_shape:
  assumes "outcome (listOrgProjectsV2 env orgLogin first after) w = Inr v
         \<or> outcome (listRepoProjectsV2 env ownerLogin repoName first after) w = Inr v
         \<or> outcome (listProjectItemsV2 env projectId first after) w = Inr v"
  shows "(field v ''nodes'' = Null \<or> (\<exists>xs. field v ''nodes'' = Arr xs))
       \<and> (field (field v ''pageInfo'') ''endCursor'' = Null
            \<or> (\<exists>c. field (field v ''pageInfo'') ''endCursor'' = Str c))
       \<and> (\<exists>b. field (field v ''pageInfo'') ''hasNextPage'' = Bool b)
       \<and> (\<exists>n. field v ''totalCount'' = Num n)"
proof -
  from assms have "\<exists>raw s. parse (isDatetime env)
       (ZObject [(''nodes'', ZNullable (ZArray s)), (''pageInfo'', PageInfoSchema),
                 (''totalCount'', ZNumber)]) raw = Some v"
  proof (elim disjE)
    assume "outcome (listOrgProjectsV2 env orgLogin first after) w = Inr v"
    from listing_validated(1) [OF this] show ?thesis
      unfolding ProjectV2ConnectionSchema_def by blast
  next
    assume "outcome (listRepoProjectsV2 env ownerLogin repoName first after) w = Inr v"
    from listing_validated(2) [OF this] show ?thesis
      unfolding ProjectV2ConnectionSchema_def by blast
  next
    assume "outcome (listProjectItemsV2 env projectId first after) w = Inr v"
    from listing_validated(3) [OF this] show ?thesis
      unfolding ProjectV2ItemConnectionSchema_def by blast
  qed
  then show ?thesis by (blast dest: connection_shape)
qed

lemma outcome_then_resolve:
  "outcome (await m (\<lambda>_. resolve c)) w = Inr r \<Longrightarrow> r = c"
  by (erule outcome_await_Inr) (simp add: outcome_def resolve_def)

lemma move_project_card_result:
  assumes "outcome (move_project_card env arguments) w = Inr r"
  shows "r = successContent env"
proof -
  from assms obtain args w' where
    "outcome
       (case (field args ''owner'', field args ''repo'', field args ''project_number'',
              field args ''card_id'', field args ''position'') of
          (Str owner, Str repo, Num project_number, Num card_id, Str position) \<Rightarrow>
            await (moveProjectCard env owner repo project_number card_id position
                     (case field args ''column_id'' of Num c \<Rightarrow> Some c | _ \<Rightarrow> None)) (\<lambda>_.
              resolve (successContent env))
        | _ \<Rightarrow> reject TypeError) w' = Inr r"
    unfolding move_project_card_def by (rule outcome_await_Inr)
  then show ?thesis
    apply (cases "field args ''owner''")
          apply (simp_all add: outcome_def reject_def)
    apply (cases "field args ''repo''")
          apply (simp_all add: outcome_def reject_def)
    apply (cases "field args ''project_number''")
          apply (simp_all add: outcome_def reject_def)
    apply (cases "field args ''card_id''")
          apply (simp_all add: outcome_def reject_def)
    apply (cases "field args ''position''")
          apply (simp_all add: outcome_def reject_def)
    apply (erule outcome_then_resolve [unfolded outcome_def])
    done
qed

lemma updateProjectItemFieldValueV2_result:
  assumes "outcome (updateProjectItemFieldValueV2 env projectId itemId fieldId fieldValue) w = Inr r"
  shows "\<exists>response.
           transport env (sent w)
             (graphqlRequest env UPDATE_PROJECT_ITEM_FIELD_MUTATION
                (Obj [(''projectId'', Str projectId), (''itemId'', Str itemId),
                      (''fieldId'', Str fieldId), (''value'', fieldValue)])) = Inr response
         \<and> getPath response [''data'', ''updateProjectV2ItemFieldValue'', ''projectV2Item''] = Inr r"
proof -
  from assms obtain d w' where
    g: "githubGraphQLRequest env UPDATE_PROJECT_ITEM_FIELD_MUTATION
          (Obj [(''projectId'', Str projectId), (''itemId'', Str itemId),
                (''fieldId'', Str fieldId), (''value'', fieldValue)]) w = (Inr d, w')"
    and p: "outcome (settled (getPath d [''updateProjectV2ItemFieldValue'', ''projectV2Item''])) w'
              = Inr r"
    unfolding updateProjectItemFieldValueV2_def by (rule outcome_await_Inr)
  from githubGraphQLRequest_Inr [OF g] obtain response kvs where
    t: "transport env (sent w)
          (graphqlRequest env UPDATE_PROJECT_ITEM_FIELD_MUTATION
             (Obj [(''projectId'', Str projectId), (''itemId'', Str itemId),
                   (''fieldId'', Str fieldId), (''value'', fieldValue)])) = Inr response"
    and d: "field response ''data'' = d" "d = Obj kvs"
    by blast
  from d have "getProp response ''data'' = Inr d"
    by (cases response) (auto simp: field_def)
  moreover from p have "getPath d [''updateProjectV2ItemFieldValue'', ''projectV2Item''] = Inr r"
    by (simp add: outcome_def settled_def)
  ultimately have "getPath response [''data'', ''updateProjectV2ItemFieldValue'', ''projectV2Item'']
                     = Inr r"
    by simp
  with t show ?thesis by blast
qed

subsection \<open>What a card move and a field update report\<close>

text \<open>
  Claim C6, as amended.  Whenever the handler of \<^verbatim>\<open>move_project_card\<close> returns a result,
  the result is the one text content holding \<^verbatim>\<open>{success: true}\<close> and nothing else.
  Whenever \<^verbatim>\<open>updateProjectItemFieldValueV2\<close> returns a result, the result is the
  \<^verbatim>\<open>projectV2Item\<close> object of the mutation's response (the updated item's id), not a
  success flag.
\<close>

theorem card_move_and_field_update_results:
  "(outcome (move_project_card env arguments) w = Inr r \<longrightarrow>
      r = Obj [(''content'',
                Arr [Obj [(''type'', Str ''text''),
                          (''text'', Str (JSON_stringify2 env (Obj [(''success'', Bool True)])))]])])
   \<and> (outcome (updateProjectItemFieldValueV2 env projectId itemId fieldId fieldValue) w = Inr r' \<longrightarrow>
       (\<exists>response.
           transport env (sent w)
             (graphqlRequest env UPDATE_PROJECT_ITEM_FIELD_MUTATION
                (Obj [(''projectId'', Str projectId), (''itemId'', Str itemId),
                      (''fieldId'', Str fieldId), (''value'', fieldValue)])) = Inr response
         \<and> getPath response [''data'', ''updateProjectV2ItemFieldValue'', ''projectV2Item''] = Inr r'))"
  using move_project_card_result [of env arguments w r]
    updateProjectItemFieldValueV2_result [of env projectId itemId fieldId fieldValue w r']
  by (simp add: successContent_def)

text \<open>
  The claim as first stated fails for the current model: the field update answers with
  the item's id.
\<close>

theorem field_update_result_counterexample:
  "outcome (updateProjectItemFieldValueV2 itemUpdated ''PVT_1'' ''PVTI_1'' ''PVTF_1''
              (Obj [(''singleSelectOptionId'', Str ''done'')])) start
     = Inr (Obj [(''id'', Str ''PVTI_1'')])
   \<and> Obj [(''id'', Str ''PVTI_1'')] \<noteq> Obj [(''success'', Bool True)]"
  by (simp add: updateProjectItemFieldValueV2_def itemUpdated_def eval_simps)

theorem card_move_and_field_update_results_witness:
  "outcome (move_project_card (testEnv [Inr Null]) moveArguments) start
     = Inr (Obj [(''content'',
                  Arr [Obj [(''type'', Str ''text''), (''text'', Str ''<json, indented>'')]])])
   \<and> dispatched (move_project_card (testEnv [Inr Null]) moveArguments) start
     = [\<lparr>req_url = ''https://api.github.com/projects/cards/<number>/moves'',
         req_method = Some ''POST'',
         req_headers = [(''Accept'', ''application/vnd.github.inertia-preview+json'')],
         req_body = Obj [(''position'', Str ''top''), (''column_id'', Num 7)]\<rparr>]
   \<and> getPath (Obj [(''data'', Obj [(''updateProjectV2ItemFieldValue'',
                                     Obj [(''projectV2Item'', Obj [(''id'', Str ''PVTI_1'')])])])])
        [''data'', ''updateProjectV2ItemFieldValue'', ''projectV2Item'']
     = Inr (Obj [(''id'', Str ''PVTI_1'')])"
proof -
  have a: "outcome (move_project_card (testEnv [Inr Null]) moveArguments) start
     = Inr (Obj [(''content'',
                  Arr [Obj [(''type'', Str ''text''), (''text'', Str ''<json, indented>'')]])])"
    by (simp add: move_project_card_def moveArguments_def MoveProjectCardSchema_def
        moveProjectCard_def optNum_def successContent_def eval_simps)
  have b: "dispatched (move_project_card (testEnv [Inr Null]) moveArguments) start
     = [\<lparr>req_url = ''https://api.github.com/projects/cards/<number>/moves'',
         req_method = Some ''POST'',
         req_headers = [(''Accept'', ''application/vnd.github.inertia-preview+json'')],
         req_body = Obj [(''position'', Str ''top''), (''column_id'', Num 7)]\<rparr>]"
    by (simp add: move_project_card_def moveArguments_def MoveProjectCardSchema_def
        moveProjectCard_def optNum_def successContent_def eval_simps)
  have c: "outcome (updateProjectItemFieldValueV2 itemUpdated ''PVT_1'' ''PVTI_1'' ''PVTF_1''
              (Obj [(''singleSelectOptionId'', Str ''done'')])) start
     = Inr (Obj [(''id'', Str ''PVTI_1'')])"
    by (simp add: updateProjectItemFieldValueV2_def itemUpdated_def eval_simps)
  show ?thesis
    using a b c
      card_move_and_field_update_results
        [where env = "testEnv [Inr Null]" and arguments = moveArguments and w = start
           and r = "Obj [(''content'',
                  Arr [Obj [(''type'', Str ''text''), (''text'', Str ''<json, indented>'')]])]",
         THEN conjunct1]
      card_move_and_field_update_results
        [where env = itemUpdated and projectId = "''PVT_1''" and itemId = "''PVTI_1''"
           and fieldId = "''PVTF_1''" and fieldValue = "Obj [(''singleSelectOptionId'', Str ''done'')]"
           and w = start and r' = "Obj [(''id'', Str ''PVTI_1'')]", THEN conjunct2]
    by (auto simp: itemUpdated_def testEnv_def scripted_def start_def)
qed

text \<open>
  The item and field queries select \<^verbatim>\<open>pageInfo { endCursor hasNextPage }\<close> only, while
  \<open>PageInfoSchema\<close> also requires \<^verbatim>\<open>hasPreviousPage\<close> and \<^verbatim>\<open>startCursor\<close>: a response that
  holds exactly the selected fields is refused by the item listing.
\<close>

lemma listProjectItemsV2_selected_fields_refused:
  "outcome (listProjectItemsV2
              (testEnv [Inr (Obj [(''data'', Obj [(''node'', Obj [(''items'',
                   Obj [(''totalCount'', Num 0),
                        (''pageInfo'', Obj [(''endCursor'', Null), (''hasNextPage'', Bool False)]),
                        (''nodes'', Arr [])])])])])])
              ''PVT_1'' None None) start
     = Inl ZodError"
  by (simp add: listProjectItemsV2_def eval_simps ProjectV2ItemConnectionSchema_def
      PageInfoSchema_def)

end
